theory Spec2Isabelle
  imports Complex_Main "HOL-Library.Finite_Map"
begin

section \<open>Data model of pkg/templates/smoketest.go\<close>

text \<open>
  A Go map from strings to strings is a finite map. Go values that can be nil are
  options: a nil map or slice is \<open>None\<close>, a non-nil one is \<open>Some\<close>, also when it is empty. \<open>reflect.DeepEqual\<close> tells the two apart, so the
  model has to.
\<close>

type_synonym gomap = "(string, string) fmap option"
type_synonym goslice = "string list option"

text \<open>
  The package-level error values, and \<open>ApiError\<close> for an error value that the cluster
  client returned (the delete functions hand it back unchanged).
\<close>

datatype err =
    ErrInitTest
  | ErrCreateTemplate
  | ErrCreateInstance
  | ErrLaunchInstanceFailed
  | ErrLaunchInstanceTimeout
  | ErrInstanceInvalid
  | ErrUnknown
  | ApiError string

fun Error :: "err \<Rightarrow> string" where
  "Error ErrInitTest = ''InitTestFailed''"
| "Error ErrCreateTemplate = ''CreateTemplateFailed''"
| "Error ErrCreateInstance = ''CreateTemplateInstanceFailed''"
| "Error ErrLaunchInstanceFailed = ''LaunchTemplateInstanceFailed''"
| "Error ErrLaunchInstanceTimeout = ''LaunchTemplateInstanceTimeout''"
| "Error ErrInstanceInvalid = ''ValidateTemplateInstanceFailed''"
| "Error ErrUnknown = ''Unknown''"
| "Error (ApiError m) = m"

text \<open>The two manifest literals of the source are kept by name.\<close>

datatype RawExtension = configMapJSON | jobJSON

record Parameter =
  pName :: string
  pDescription :: string
  pDisplayName :: string

record Template =
  tName :: string
  tLabels :: gomap
  tObjects :: "RawExtension list"
  tObjectLabels :: gomap
  tParameters :: "Parameter list"

record Secret =
  sName :: string
  sData :: gomap

record Condition =
  cType :: string
  cStatus :: string

record TemplateInstance =
  iName :: string
  iLabels :: gomap
  iTemplate :: "Template option"
  iSecret :: "string option"
  iConditions :: "Condition list"

record ConfigMap =
  cmData :: gomap

record Container =
  Args :: goslice

record Job =
  Containers :: "Container list"

definition TemplateInstanceReady :: string where
  "TemplateInstanceReady = ''Ready''"

definition TemplateInstanceInstantiateFailure :: string where
  "TemplateInstanceInstantiateFailure = ''InstantiateFailure''"

definition ConditionTrue :: string where
  "ConditionTrue = ''True''"

text \<open>
  A watch event: its type is a string (\<open>watch.Modified\<close> is \<open>MODIFIED\<close>), its object an
  interface value. A closed channel delivers the zero event: empty type, nil object.
\<close>

datatype Object = TemplateInstanceObject TemplateInstance | OtherObject | NilObject

record Event =
  eType :: string
  eObject :: Object

definition Modified :: string where
  "Modified = ''MODIFIED''"

datatype panic = IndexOutOfRange | InterfaceConversion | NilDereference

datatype 'a outcome = Returned 'a | Panicked panic

section \<open>The cluster client and the clock\<close>

text \<open>
  Every call the engine issues is appended to a trace. The client answers a call as a
  function of the trace so far, so that the same call can be answered differently the
  second time (a delete of what is already gone).
\<close>

datatype call =
    CallTemplatesCreate string Template
  | CallTemplatesGet string string
  | CallTemplatesDelete string string
  | CallSecretsCreate string Secret
  | CallSecretsDelete string string
  | CallInstancesCreate string TemplateInstance
  | CallInstancesWatch string string
  | CallInstancesDelete string string
  | CallConfigMapsGet string string
  | CallJobsGet string string
  | CallWatcherStop

text \<open>
  A create or get returns \<open>(result, err)\<close>. With a nil error the result is a non-nil
  object (\<open>Reply\<close>); with an error the result may be nil or not (\<open>Refused\<close>), as the
  real and the fake clients differ there.
\<close>

datatype 'a reply = Reply 'a | Refused "'a option" string

text \<open>
  \<open>received\<close> is the sequence of events that the \<open>select\<close> of the wait loop takes
  before it takes the timer, each with the reading of \<open>time.Now()\<close> in its branch;
  \<open>clockTimeout\<close> is the reading in the timer's branch. The timer of \<open>time.After\<close> always
  fires, so the loop ends when the events are used up. Readings are nanoseconds.
  \<open>jsonUnmarshal\<close> is \<open>json.Unmarshal\<close> into a string slice: \<open>None\<close> for an error.
\<close>

record world =
  TemplatesCreate :: "call list \<Rightarrow> string \<Rightarrow> Template \<Rightarrow> Template reply"
  TemplatesGet :: "call list \<Rightarrow> string \<Rightarrow> string \<Rightarrow> Template reply"
  TemplatesDelete :: "call list \<Rightarrow> string \<Rightarrow> string \<Rightarrow> string option"
  SecretsCreate :: "call list \<Rightarrow> string \<Rightarrow> Secret \<Rightarrow> Secret reply"
  SecretsDelete :: "call list \<Rightarrow> string \<Rightarrow> string \<Rightarrow> string option"
  InstancesCreate :: "call list \<Rightarrow> string \<Rightarrow> TemplateInstance \<Rightarrow> TemplateInstance reply"
  InstancesWatch :: "call list \<Rightarrow> string \<Rightarrow> string \<Rightarrow> string option"
  InstancesDelete :: "call list \<Rightarrow> string \<Rightarrow> string \<Rightarrow> string option"
  ConfigMapsGet :: "call list \<Rightarrow> string \<Rightarrow> string \<Rightarrow> ConfigMap reply"
  JobsGet :: "call list \<Rightarrow> string \<Rightarrow> string \<Rightarrow> Job reply"
  jsonUnmarshal :: "string \<Rightarrow> goslice option"
  clockRun :: int
  clockLaunch :: int
  received :: "(int \<times> Event) list"
  clockTimeout :: int

text \<open>Of the \<open>Smoketest\<close> struct the namespace; its three client interfaces are the world.\<close>

record Smoketest =
  namespace :: string

text \<open>
  Time: a reading of \<open>time.Now()\<close> is a number of nanoseconds, \<open>Sub\<close> the difference of
  two readings and \<open>Seconds\<close> that difference in seconds, as a real number (the rounding
  to a float64 is not modelled). \<open>Unix\<close> is the reading in whole seconds and \<open>FormatInt\<close>
  its decimal string, from which \<open>Run\<close> makes the identifier of the run.
\<close>

definition Sub :: "int \<Rightarrow> int \<Rightarrow> int" where
  "Sub t u = t - u"

definition Seconds :: "int \<Rightarrow> real" where
  "Seconds d = real_of_int d / 1000000000"

definition Unix :: "int \<Rightarrow> int" where
  "Unix t = t div 1000000000"

function string_of_nat :: "nat \<Rightarrow> string" where
  "string_of_nat n =
     (if n < 10 then [''0123456789'' ! n]
      else string_of_nat (n div 10) @ [''0123456789'' ! (n mod 10)])"
  by pat_completeness auto
termination
  by (relation "measure id") auto

declare string_of_nat.simps [simp del]

definition FormatInt :: "int \<Rightarrow> string" where
  "FormatInt i = (if i < 0 then ''-'' @ string_of_nat (nat (- i)) else string_of_nat (nat i))"

text \<open>Reading a Go map at a key that is missing gives the empty string.\<close>

definition index :: "(string, string) fmap \<Rightarrow> string \<Rightarrow> string" where
  "index m k = (case fmlookup m k of None \<Rightarrow> [] | Some v \<Rightarrow> v)"

text \<open>
  \<open>reflect.DeepEqual\<close> on two maps or two slices of strings: both nil, or both non-nil
  with the same entries; that is equality of the options.
\<close>

definition DeepEqual :: "'a option \<Rightarrow> 'a option \<Rightarrow> bool" where
  "DeepEqual a b = (a = b)"

section \<open>The delete functions\<close>

definition deleteSecret ::
  "world \<Rightarrow> string \<Rightarrow> Secret option \<Rightarrow> call list \<Rightarrow> err option \<times> call list" where
  "deleteSecret w ns secret tr =
     (case secret of
        None \<Rightarrow> (None, tr)
      | Some s \<Rightarrow>
          (case SecretsDelete w tr ns (sName s) of
             Some e \<Rightarrow> (Some (ApiError e), tr @ [CallSecretsDelete ns (sName s)])
           | None \<Rightarrow> (None, tr @ [CallSecretsDelete ns (sName s)])))"

definition deleteTemplate ::
  "world \<Rightarrow> string \<Rightarrow> Template option \<Rightarrow> call list \<Rightarrow> err option \<times> call list" where
  "deleteTemplate w ns template tr =
     (case template of
        None \<Rightarrow> (None, tr)
      | Some tm \<Rightarrow>
          (case TemplatesDelete w tr ns (tName tm) of
             Some e \<Rightarrow> (Some (ApiError e), tr @ [CallTemplatesDelete ns (tName tm)])
           | None \<Rightarrow> (None, tr @ [CallTemplatesDelete ns (tName tm)])))"

definition deleteTemplateInstance ::
  "world \<Rightarrow> string \<Rightarrow> TemplateInstance option \<Rightarrow> call list \<Rightarrow> err option \<times> call list" where
  "deleteTemplateInstance w ns instance tr =
     (case instance of
        None \<Rightarrow> (None, tr)
      | Some ti \<Rightarrow>
          (case InstancesDelete w tr ns (iName ti) of
             Some e \<Rightarrow> (Some (ApiError e), tr @ [CallInstancesDelete ns (iName ti)])
           | None \<Rightarrow> (None, tr @ [CallInstancesDelete ns (iName ti)])))"

section \<open>Validation\<close>

text \<open>The literal \<^verbatim>\<open>[ "echo", "Hello world" ]\<close> of the source.\<close>

definition echoJSON :: string where
  "echoJSON = ''[ '' @ [CHR 0x22] @ ''echo'' @ [CHR 0x22] @ '', '' @ [CHR 0x22]
         @ ''Hello world'' @ [CHR 0x22] @ '' ]''"

definition getDummyTemplateParams :: "string \<Rightarrow> (string, string) fmap" where
  "getDummyTemplateParams ident =
     fmap_of_list [(''ID'', ident), (''SIMPLE_PARAM'', ''test''), (''JSON_PARAM'', echoJSON)]"

text \<open>The local values \<open>configMapName\<close>, \<open>expectedData\<close> and \<open>jobName\<close> of the validation.\<close>

definition configMapName :: "(string, string) fmap \<Rightarrow> string" where
  "configMapName params = ''test-configmap-'' @ index params ''ID''"

definition expectedData :: "(string, string) fmap \<Rightarrow> gomap" where
  "expectedData params =
     Some (fmap_of_list [(''foo'', ''bar''), (''simpleParam'', index params ''SIMPLE_PARAM'')])"

definition jobName :: "(string, string) fmap \<Rightarrow> string" where
  "jobName params = ''test-job-'' @ index params ''ID''"

definition validateTemplateInstance ::
  "world \<Rightarrow> Smoketest \<Rightarrow> TemplateInstance \<Rightarrow> Template \<Rightarrow> (string, string) fmap \<Rightarrow> call list
     \<Rightarrow> err option outcome \<times> call list" where
  "validateTemplateInstance w t instance template params tr =
     (if \<not> DeepEqual (tLabels template) (iLabels instance)
      then (Returned (Some ErrInstanceInvalid), tr)
      else
       (let tr1 = tr @ [CallConfigMapsGet (namespace t) (configMapName params)]
        in
         (case ConfigMapsGet w tr (namespace t) (configMapName params) of
            Refused _ _ \<Rightarrow> (Returned (Some ErrLaunchInstanceFailed), tr1)
          | Reply configMap \<Rightarrow>
             (if \<not> DeepEqual (expectedData params) (cmData configMap)
              then (Returned (Some ErrInstanceInvalid), tr1)
              else
               (case jsonUnmarshal w (index params ''JSON_PARAM'') of
                  None \<Rightarrow> (Returned (Some ErrUnknown), tr1)
                | Some expectedArgs \<Rightarrow>
                   (let tr2 = tr1 @ [CallJobsGet (namespace t) (jobName params)]
                    in
                     (case JobsGet w tr1 (namespace t) (jobName params) of
                        Refused _ _ \<Rightarrow> (Returned (Some ErrLaunchInstanceFailed), tr2)
                      | Reply job \<Rightarrow>
                         (case Containers job of
                            [] \<Rightarrow> (Panicked IndexOutOfRange, tr2)
                          | c # _ \<Rightarrow>
                             (if \<not> DeepEqual expectedArgs (Args c)
                              then (Returned (Some ErrInstanceInvalid), tr2)
                              else (Returned None, tr2))))))))))"

section \<open>Creating the template\<close>

text \<open>The literal \<open>testTemplate\<close> that \<open>createTemplateCheck\<close> builds and submits.\<close>

definition newTemplate :: "string \<Rightarrow> Template" where
  "newTemplate templateName =
     \<lparr>tName = templateName,
      tLabels = None,
      tObjects = [configMapJSON, jobJSON],
      tObjectLabels = Some (fmap_of_list [(''this'', ''that''), (''google'', ''kubernetes''),
                                          (''redhat'', ''openshift'')]),
      tParameters = [
        \<lparr>pName = ''ID'',
         pDescription = ''An identifier for all objects in the template instance.'',
         pDisplayName = ''ID''\<rparr>,
        \<lparr>pName = ''SIMPLE_PARAM'',
         pDescription = ''A simple parameter for a template.'',
         pDisplayName = ''Simple Parameter''\<rparr>,
        \<lparr>pName = ''JSON_PARAM'',
         pDescription = ''A JSON or YAML-formatted parameter.'',
         pDisplayName = ''JSON Parameter''\<rparr>]\<rparr>"

definition createTemplateCheck ::
  "world \<Rightarrow> string \<Rightarrow> string \<Rightarrow> call list \<Rightarrow> (Template option \<times> err option) \<times> call list" where
  "createTemplateCheck w ns ident tr =
     (let templateName = ''smoketest-template-'' @ ident;
          testTemplate = newTemplate templateName;
          tr1 = tr @ [CallTemplatesCreate ns testTemplate]
      in
       (case TemplatesCreate w tr ns testTemplate of
          Refused result _ \<Rightarrow> ((result, Some ErrCreateTemplate), tr1)
        | Reply result \<Rightarrow> ((Some result, None), tr1)))"

section \<open>Launching the instance and waiting for it\<close>

type_synonym launched = "TemplateInstance option \<times> Secret option \<times> real \<times> err option"

text \<open>
  The loop over the conditions of one Modified event: \<open>None\<close> when no condition ended
  the wait, otherwise what \<open>launchTemplateInstanceCheck\<close> returns from inside the loop:
  \<open>isReady\<close> and \<open>isFailure\<close> are the two tests of the loop body, \<open>readyExit\<close> is the
  body of the first \<open>if\<close> (stop the watcher, validate, return), \<open>failureExit\<close> the
  body of the second.
\<close>

definition isReady :: "Condition \<Rightarrow> bool" where
  "isReady cond = (cType cond = TemplateInstanceReady \<and> cStatus cond = ConditionTrue)"

definition isFailure :: "Condition \<Rightarrow> bool" where
  "isFailure cond =
     (cType cond = TemplateInstanceInstantiateFailure \<and> cStatus cond = ConditionTrue)"

definition readyExit ::
  "world \<Rightarrow> Smoketest \<Rightarrow> TemplateInstance \<Rightarrow> Secret \<Rightarrow> real \<Rightarrow> Template
     \<Rightarrow> (string, string) fmap \<Rightarrow> call list \<Rightarrow> launched outcome \<times> call list" where
  "readyExit w t ti secretResult duration template params tr =
     (case validateTemplateInstance w t ti template params (tr @ [CallWatcherStop]) of
        (Panicked p, tr') \<Rightarrow> (Panicked p, tr')
      | (Returned e, tr') \<Rightarrow> (Returned (Some ti, Some secretResult, duration, e), tr'))"

definition failureExit ::
  "TemplateInstance \<Rightarrow> Secret \<Rightarrow> real \<Rightarrow> call list \<Rightarrow> launched outcome \<times> call list" where
  "failureExit ti secretResult duration tr =
     (Returned (Some ti, Some secretResult, duration, Some ErrLaunchInstanceFailed),
      tr @ [CallWatcherStop])"

fun conditionsLoop ::
  "world \<Rightarrow> Smoketest \<Rightarrow> TemplateInstance \<Rightarrow> Secret \<Rightarrow> real \<Rightarrow> Template
     \<Rightarrow> (string, string) fmap \<Rightarrow> Condition list \<Rightarrow> call list
     \<Rightarrow> (launched outcome \<times> call list) option" where
  "conditionsLoop w t ti secretResult duration template params [] tr = None"
| "conditionsLoop w t ti secretResult duration template params (cond # conds) tr =
     (if isReady cond
      then Some (readyExit w t ti secretResult duration template params tr)
      else if isFailure cond
      then Some (failureExit ti secretResult duration tr)
      else conditionsLoop w t ti secretResult duration template params conds tr)"

text \<open>
  The \<open>for\<close>/\<open>select\<close> loop, over the events that are taken before the timer. The
  instance \<open>ti\<close> is replaced by the payload of each Modified event.
\<close>

fun watchLoop ::
  "world \<Rightarrow> Smoketest \<Rightarrow> Secret \<Rightarrow> int \<Rightarrow> Template \<Rightarrow> (string, string) fmap
     \<Rightarrow> TemplateInstance \<Rightarrow> (int \<times> Event) list \<Rightarrow> call list \<Rightarrow> launched outcome \<times> call list" where
  "watchLoop w t secretResult launchStart template params ti [] tr =
     (Returned (Some ti, Some secretResult, Seconds (Sub (clockTimeout w) launchStart),
                Some ErrLaunchInstanceTimeout), tr)"
| "watchLoop w t secretResult launchStart template params ti ((now, event) # rest) tr =
     (if eType event = Modified
      then
       (case eObject event of
          TemplateInstanceObject ti' \<Rightarrow>
           (case conditionsLoop w t ti' secretResult (Seconds (Sub now launchStart)) template params
                   (iConditions ti') tr of
              Some r \<Rightarrow> r
            | None \<Rightarrow> watchLoop w t secretResult launchStart template params ti' rest tr)
        | OtherObject \<Rightarrow> (Panicked InterfaceConversion, tr)
        | NilObject \<Rightarrow> (Panicked InterfaceConversion, tr))
      else (Returned (Some ti, Some secretResult, Seconds (Sub now launchStart), Some ErrUnknown), tr))"

text \<open>
  The two objects that the launch builds and submits. The parameter \<open>timeoutInterval\<close>
  of the launch sets the timer of \<open>time.After\<close>; what the loop sees of the timer is the
  place where its branch is taken, which is part of the world (\<open>received\<close>), so the
  parameter does not occur on the right-hand side.
\<close>

definition newSecret :: "string \<Rightarrow> (string, string) fmap \<Rightarrow> Secret" where
  "newSecret templateName params = \<lparr>sName = templateName @ ''-secret'', sData = Some params\<rparr>"

definition newInstance :: "string \<Rightarrow> Template \<Rightarrow> Secret \<Rightarrow> TemplateInstance" where
  "newInstance templateName template secret =
     \<lparr>iName = templateName @ ''-instance'', iLabels = None, iTemplate = Some template,
      iSecret = Some (sName secret), iConditions = []\<rparr>"

definition launchTemplateInstanceCheck ::
  "world \<Rightarrow> Smoketest \<Rightarrow> string \<Rightarrow> string \<Rightarrow> string \<Rightarrow> int \<Rightarrow> call list
     \<Rightarrow> launched outcome \<times> call list" where
  "launchTemplateInstanceCheck w t ns templateName ident timeoutInterval tr =
     (let duration = 0;
          params = getDummyTemplateParams ident;
          tr1 = tr @ [CallTemplatesGet ns templateName]
      in
       (case TemplatesGet w tr ns templateName of
          Refused _ _ \<Rightarrow> (Returned (None, None, duration, Some ErrCreateTemplate), tr1)
        | Reply template \<Rightarrow>
           (let secret = newSecret templateName params;
                tr2 = tr1 @ [CallSecretsCreate ns secret]
            in
             (case SecretsCreate w tr1 ns secret of
                Refused secretResult _ \<Rightarrow>
                  (Returned (None, secretResult, duration, Some ErrCreateInstance), tr2)
              | Reply secretResult \<Rightarrow>
                 (let launchStart = clockLaunch w;
                      request = newInstance templateName template secret;
                      tr3 = tr2 @ [CallInstancesCreate ns request]
                  in
                   (case InstancesCreate w tr2 ns request of
                      Refused _ _ \<Rightarrow>
                        (Returned (None, Some secretResult, duration, Some ErrCreateInstance), tr3)
                    | Reply ti \<Rightarrow>
                       (let tr4 = tr3 @ [CallInstancesWatch ns (iName ti)]
                        in
                         (case InstancesWatch w tr3 ns (iName ti) of
                            Some _ \<Rightarrow>
                              (Returned (Some ti, Some secretResult, duration, Some ErrUnknown), tr4)
                          | None \<Rightarrow>
                              watchLoop w t secretResult launchStart template params ti
                                (received w) tr4))))))))"

section \<open>Run and its deferred cleanup\<close>

text \<open>
  A \<open>defer\<close> statement fixes the arguments of the call when it is executed; the calls
  run last-in first-out when \<open>Run\<close> leaves, whether it returns or panics, and their
  results are dropped.
\<close>

datatype deferred =
    DeferDeleteTemplate string "Template option"
  | DeferDeleteSecret string "Secret option"
  | DeferDeleteTemplateInstance string "TemplateInstance option"

fun runDeferred :: "world \<Rightarrow> deferred list \<Rightarrow> call list \<Rightarrow> call list" where
  "runDeferred w [] tr = tr"
| "runDeferred w (DeferDeleteTemplate ns template # ds) tr =
     runDeferred w ds (snd (deleteTemplate w ns template tr))"
| "runDeferred w (DeferDeleteSecret ns secret # ds) tr =
     runDeferred w ds (snd (deleteSecret w ns secret tr))"
| "runDeferred w (DeferDeleteTemplateInstance ns ti # ds) tr =
     runDeferred w ds (snd (deleteTemplateInstance w ns ti tr))"

definition Run ::
  "world \<Rightarrow> Smoketest \<Rightarrow> bool \<Rightarrow> int \<Rightarrow> call list \<Rightarrow> (real \<times> err option) outcome \<times> call list" where
  "Run w t keepObjects timeout tr =
     (let workspace = namespace t;
          ident = FormatInt (Unix (clockRun w))
      in
       (case createTemplateCheck w workspace ident tr of
          ((template, err), tr1) \<Rightarrow>
           (let d1 = (if \<not> keepObjects then [DeferDeleteTemplate workspace template] else [])
            in
             (case err of
                Some e \<Rightarrow> (Returned (0, Some e), runDeferred w d1 tr1)
              | None \<Rightarrow>
                 (case template of
                    None \<Rightarrow> (Panicked NilDereference, runDeferred w d1 tr1)
                  | Some tm \<Rightarrow>
                     (case launchTemplateInstanceCheck w t workspace (tName tm) ident timeout tr1 of
                        (Panicked p, tr2) \<Rightarrow> (Panicked p, runDeferred w d1 tr2)
                      | (Returned (ti, secret, duration, err'), tr2) \<Rightarrow>
                         (let d2 = (if \<not> keepObjects then [DeferDeleteSecret workspace secret]
                                    else []) @ d1;
                              d3 = (if \<not> keepObjects
                                    then [DeferDeleteTemplateInstance workspace ti] else []) @ d2
                          in (Returned (duration, err'), runDeferred w d3 tr2))))))))"

section \<open>Vocabulary of the properties\<close>

text \<open>
  A condition is terminal when one of the two tests of the loop body accepts it. An event
  is pending when the wait goes on after it: it is a Modified event, it carries an
  instance, and none of the conditions of the instance is terminal. \<open>snapshot\<close> is the
  instance that the loop holds after a sequence of events.
\<close>

definition terminal :: "Condition \<Rightarrow> bool" where
  "terminal cond = (isReady cond \<or> isFailure cond)"

definition pendingEvent :: "Event \<Rightarrow> bool" where
  "pendingEvent ev =
     (eType ev = Modified \<and>
      (case eObject ev of
         TemplateInstanceObject ti \<Rightarrow> list_all (\<lambda>c. \<not> terminal c) (iConditions ti)
       | OtherObject \<Rightarrow> False
       | NilObject \<Rightarrow> False))"

fun snapshot :: "TemplateInstance \<Rightarrow> (int \<times> Event) list \<Rightarrow> TemplateInstance" where
  "snapshot ti [] = ti"
| "snapshot ti ((now, ev) # rest) =
     snapshot (case eObject ev of TemplateInstanceObject ti' \<Rightarrow> ti' | OtherObject \<Rightarrow> ti
               | NilObject \<Rightarrow> ti) rest"

text \<open>The delete requests in a trace, and the request that the cleanup of a reference issues.\<close>

definition isCleanup :: "call \<Rightarrow> bool" where
  "isCleanup c =
     (case c of
        CallTemplatesDelete _ _ \<Rightarrow> True
      | CallSecretsDelete _ _ \<Rightarrow> True
      | CallInstancesDelete _ _ \<Rightarrow> True
      | _ \<Rightarrow> False)"

definition instanceCleanup :: "string \<Rightarrow> TemplateInstance option \<Rightarrow> call list" where
  "instanceCleanup ns ti = (case ti of None \<Rightarrow> [] | Some i \<Rightarrow> [CallInstancesDelete ns (iName i)])"

definition secretCleanup :: "string \<Rightarrow> Secret option \<Rightarrow> call list" where
  "secretCleanup ns secret =
     (case secret of None \<Rightarrow> [] | Some s \<Rightarrow> [CallSecretsDelete ns (sName s)])"

definition templateCleanup :: "string \<Rightarrow> Template option \<Rightarrow> call list" where
  "templateCleanup ns template =
     (case template of None \<Rightarrow> [] | Some tm \<Rightarrow> [CallTemplatesDelete ns (tName tm)])"

text \<open>
  The entries of a label map, read as the specification reads a label set: a nil map has
  no entries.
\<close>

definition entries :: "gomap \<Rightarrow> (string, string) fmap" where
  "entries m = (case m of None \<Rightarrow> fmempty | Some x \<Rightarrow> x)"

section \<open>Example clusters\<close>

definition readyInstance :: TemplateInstance where
  "readyInstance =
     \<lparr>iName = ''smoketest-template-5-instance'', iLabels = None, iTemplate = None,
      iSecret = Some ''smoketest-template-5-secret'',
      iConditions = [\<lparr>cType = ''Ready'', cStatus = ''True''\<rparr>]\<rparr>"

text \<open>
  A cluster on which everything succeeds: creates and gets reply, one Modified event
  with Ready=True arrives two seconds after the launch, and the config map and the job
  are what the template produces from the dummy parameters.
\<close>

definition goodCluster :: world where
  "goodCluster =
     \<lparr>TemplatesCreate = (\<lambda>tr ns tm. Reply tm),
      TemplatesGet = (\<lambda>tr ns name. Reply (newTemplate name)),
      TemplatesDelete = (\<lambda>tr ns name. None),
      SecretsCreate = (\<lambda>tr ns s. Reply s),
      SecretsDelete = (\<lambda>tr ns name. None),
      InstancesCreate = (\<lambda>tr ns ti. Reply ti),
      InstancesWatch = (\<lambda>tr ns name. None),
      InstancesDelete = (\<lambda>tr ns name. None),
      ConfigMapsGet = (\<lambda>tr ns name.
         Reply \<lparr>cmData = Some (fmap_of_list [(''foo'', ''bar''), (''simpleParam'', ''test'')])\<rparr>),
      JobsGet = (\<lambda>tr ns name.
         Reply \<lparr>Containers = [\<lparr>Args = Some [''echo'', ''Hello world'']\<rparr>]\<rparr>),
      jsonUnmarshal = (\<lambda>s. if s = echoJSON then Some (Some [''echo'', ''Hello world''])
                            else None),
      clockRun = 5000000000,
      clockLaunch = 6000000000,
      received = [(8000000000, \<lparr>eType = ''MODIFIED'',
                                 eObject = TemplateInstanceObject readyInstance\<rparr>)],
      clockTimeout = 66000000000\<rparr>"

definition testSmoketest :: Smoketest where
  "testSmoketest = \<lparr>namespace = ''dummyNamespace''\<rparr>"

text \<open>
  A cluster that answers the delete of a template that was deleted before with a
  not-found error, as the cluster API does.
\<close>

definition strictCluster :: world where
  "strictCluster =
     goodCluster\<lparr>TemplatesDelete :=
       (\<lambda>tr ns name. if CallTemplatesDelete ns name \<in> set tr then Some ''NotFound'' else None)\<rparr>"

definition testTemplate :: Template where
  "testTemplate = \<lparr>tName = ''testName'', tLabels = None, tObjects = [], tObjectLabels = None,
                    tParameters = []\<rparr>"

definition modifiedEvent :: "TemplateInstance \<Rightarrow> Event" where
  "modifiedEvent ti = \<lparr>eType = ''MODIFIED'', eObject = TemplateInstanceObject ti\<rparr>"

definition deletedEvent :: Event where
  "deletedEvent = \<lparr>eType = ''DELETED'', eObject = TemplateInstanceObject readyInstance\<rparr>"

text \<open>Instances whose status carries both terminal conditions, in the two orders.\<close>

definition readyFirstInstance :: TemplateInstance where
  "readyFirstInstance =
     readyInstance\<lparr>iConditions := [\<lparr>cType = ''Ready'', cStatus = ''True''\<rparr>,
                                    \<lparr>cType = ''InstantiateFailure'', cStatus = ''True''\<rparr>]\<rparr>"

definition failureFirstInstance :: TemplateInstance where
  "failureFirstInstance =
     readyInstance\<lparr>iConditions := [\<lparr>cType = ''InstantiateFailure'', cStatus = ''True''\<rparr>,
                                    \<lparr>cType = ''Ready'', cStatus = ''True''\<rparr>]\<rparr>"

text \<open>An instance that is still being instantiated, and one with an empty, non-nil label map.\<close>

definition progressingInstance :: TemplateInstance where
  "progressingInstance =
     readyInstance\<lparr>iConditions := [\<lparr>cType = ''Ready'', cStatus = ''False''\<rparr>]\<rparr>"

definition emptyLabelsInstance :: TemplateInstance where
  "emptyLabelsInstance = readyInstance\<lparr>iLabels := Some fmempty\<rparr>"

text \<open>
  Variations of \<open>goodCluster\<close>: no event before the timer; a job without containers;
  the creation of the instance refused.
\<close>

definition silentCluster :: world where
  "silentCluster = goodCluster\<lparr>received := []\<rparr>"

definition noContainersCluster :: world where
  "noContainersCluster = goodCluster\<lparr>JobsGet := (\<lambda>tr ns name. Reply \<lparr>Containers = []\<rparr>)\<rparr>"

definition noInstanceCluster :: world where
  "noInstanceCluster =
     goodCluster\<lparr>InstancesCreate := (\<lambda>tr ns ti. Refused None ''Forbidden'')\<rparr>"

text \<open>
  A cluster whose job runs other arguments than the JSON parameter asks for; a cluster
  with other answers to the three delete requests, and answers that always fail.
\<close>

definition mismatchCluster :: world where
  "mismatchCluster =
     goodCluster\<lparr>JobsGet := (\<lambda>tr ns name.
        Reply \<lparr>Containers = [\<lparr>Args = Some [''echo'', ''Goodbye'']\<rparr>]\<rparr>)\<rparr>"

definition withDeletes ::
  "world \<Rightarrow> (call list \<Rightarrow> string \<Rightarrow> string \<Rightarrow> string option)
     \<Rightarrow> (call list \<Rightarrow> string \<Rightarrow> string \<Rightarrow> string option)
     \<Rightarrow> (call list \<Rightarrow> string \<Rightarrow> string \<Rightarrow> string option) \<Rightarrow> world" where
  "withDeletes w f g h = w\<lparr>TemplatesDelete := f, SecretsDelete := g, InstancesDelete := h\<rparr>"

definition failingDeletes :: "call list \<Rightarrow> string \<Rightarrow> string \<Rightarrow> string option" where
  "failingDeletes tr ns name = Some ''Timeout''"


text \<open>
  Clusters on which the engine itself fails: the watch cannot be opened; a Deleted event
  follows a pending event; the JSON parameter does not decode.
\<close>

definition unwatchableCluster :: world where
  "unwatchableCluster = goodCluster\<lparr>InstancesWatch := (\<lambda>tr ns name. Some ''Unauthorized'')\<rparr>"

definition deletedCluster :: world where
  "deletedCluster =
     goodCluster\<lparr>received := [(7000000000, modifiedEvent progressingInstance),
                              (9000000000, deletedEvent)]\<rparr>"

definition undecodableCluster :: world where
  "undecodableCluster = goodCluster\<lparr>jsonUnmarshal := (\<lambda>s. None)\<rparr>"

section \<open>Auxiliary facts\<close>

subsection \<open>Validation, step by step\<close>

lemma validate_ok_iff:
  "fst (validateTemplateInstance w t instance template params tr) = Returned None \<longleftrightarrow>
     DeepEqual (tLabels template) (iLabels instance) \<and>
     (\<exists>cm. ConfigMapsGet w tr (namespace t) (configMapName params) = Reply cm \<and>
           DeepEqual (expectedData params) (cmData cm)) \<and>
     (\<exists>args job c cs.
           jsonUnmarshal w (index params ''JSON_PARAM'') = Some args \<and>
           JobsGet w (tr @ [CallConfigMapsGet (namespace t) (configMapName params)])
             (namespace t) (jobName params) = Reply job \<and>
           Containers job = c # cs \<and> DeepEqual args (Args c))"
  by (auto simp add: validateTemplateInstance_def Let_def
      split: reply.splits option.splits list.splits)

lemma validate_labels:
  "\<not> DeepEqual (tLabels template) (iLabels instance) \<Longrightarrow>
   validateTemplateInstance w t instance template params tr = (Returned (Some ErrInstanceInvalid), tr)"
  by (simp add: validateTemplateInstance_def)

lemma validate_no_configmap:
  "DeepEqual (tLabels template) (iLabels instance) \<Longrightarrow>
   ConfigMapsGet w tr (namespace t) (configMapName params) = Refused x m \<Longrightarrow>
   validateTemplateInstance w t instance template params tr =
     (Returned (Some ErrLaunchInstanceFailed),
      tr @ [CallConfigMapsGet (namespace t) (configMapName params)])"
  by (simp add: validateTemplateInstance_def)

lemma validate_data:
  "DeepEqual (tLabels template) (iLabels instance) \<Longrightarrow>
   ConfigMapsGet w tr (namespace t) (configMapName params) = Reply cm \<Longrightarrow>
   \<not> DeepEqual (expectedData params) (cmData cm) \<Longrightarrow>
   validateTemplateInstance w t instance template params tr =
     (Returned (Some ErrInstanceInvalid),
      tr @ [CallConfigMapsGet (namespace t) (configMapName params)])"
  by (simp add: validateTemplateInstance_def)

lemma validate_decode:
  "DeepEqual (tLabels template) (iLabels instance) \<Longrightarrow>
   ConfigMapsGet w tr (namespace t) (configMapName params) = Reply cm \<Longrightarrow>
   DeepEqual (expectedData params) (cmData cm) \<Longrightarrow>
   jsonUnmarshal w (index params ''JSON_PARAM'') = None \<Longrightarrow>
   validateTemplateInstance w t instance template params tr =
     (Returned (Some ErrUnknown),
      tr @ [CallConfigMapsGet (namespace t) (configMapName params)])"
  by (simp add: validateTemplateInstance_def)

lemma validate_no_job:
  "DeepEqual (tLabels template) (iLabels instance) \<Longrightarrow>
   ConfigMapsGet w tr (namespace t) (configMapName params) = Reply cm \<Longrightarrow>
   DeepEqual (expectedData params) (cmData cm) \<Longrightarrow>
   jsonUnmarshal w (index params ''JSON_PARAM'') = Some args \<Longrightarrow>
   JobsGet w (tr @ [CallConfigMapsGet (namespace t) (configMapName params)])
             (namespace t) (jobName params) = Refused y m \<Longrightarrow>
   validateTemplateInstance w t instance template params tr =
     (Returned (Some ErrLaunchInstanceFailed),
      tr @ [CallConfigMapsGet (namespace t) (configMapName params),
            CallJobsGet (namespace t) (jobName params)])"
  by (simp add: validateTemplateInstance_def)

lemma validate_args:
  "DeepEqual (tLabels template) (iLabels instance) \<Longrightarrow>
   ConfigMapsGet w tr (namespace t) (configMapName params) = Reply cm \<Longrightarrow>
   DeepEqual (expectedData params) (cmData cm) \<Longrightarrow>
   jsonUnmarshal w (index params ''JSON_PARAM'') = Some args \<Longrightarrow>
   JobsGet w (tr @ [CallConfigMapsGet (namespace t) (configMapName params)])
             (namespace t) (jobName params) = Reply job \<Longrightarrow>
   Containers job = c # cs \<Longrightarrow>
   validateTemplateInstance w t instance template params tr =
     (Returned (if DeepEqual args (Args c) then None else Some ErrInstanceInvalid),
      tr @ [CallConfigMapsGet (namespace t) (configMapName params),
            CallJobsGet (namespace t) (jobName params)])"
  by (simp add: validateTemplateInstance_def)

lemma validate_no_container:
  "DeepEqual (tLabels template) (iLabels instance) \<Longrightarrow>
   ConfigMapsGet w tr (namespace t) (configMapName params) = Reply cm \<Longrightarrow>
   DeepEqual (expectedData params) (cmData cm) \<Longrightarrow>
   jsonUnmarshal w (index params ''JSON_PARAM'') = Some args \<Longrightarrow>
   JobsGet w (tr @ [CallConfigMapsGet (namespace t) (configMapName params)])
             (namespace t) (jobName params) = Reply job \<Longrightarrow>
   Containers job = [] \<Longrightarrow>
   validateTemplateInstance w t instance template params tr =
     (Panicked IndexOutOfRange,
      tr @ [CallConfigMapsGet (namespace t) (configMapName params),
            CallJobsGet (namespace t) (jobName params)])"
  by (simp add: validateTemplateInstance_def)

lemma validate_panic_only:
  "fst (validateTemplateInstance w t instance template params tr) = Panicked p \<Longrightarrow>
   p = IndexOutOfRange \<and>
   (\<exists>job. JobsGet w (tr @ [CallConfigMapsGet (namespace t) (configMapName params)])
             (namespace t) (jobName params) = Reply job \<and> Containers job = [])"
  by (auto simp add: validateTemplateInstance_def Let_def
      split: reply.splits option.splits list.splits if_splits)

subsection \<open>The wait loop\<close>

lemma ready_not_failure: "isReady c \<Longrightarrow> \<not> isFailure c"
  by (simp add: isReady_def isFailure_def TemplateInstanceReady_def
        TemplateInstanceInstantiateFailure_def)

lemma conditionsLoop_pending:
  "list_all (\<lambda>c. \<not> terminal c) pre \<Longrightarrow>
   conditionsLoop w t ti s d tm ps (pre @ post) tr = conditionsLoop w t ti s d tm ps post tr"
  by (induction pre) (simp_all add: terminal_def)

lemma conditionsLoop_none:
  "list_all (\<lambda>c. \<not> terminal c) conds \<Longrightarrow> conditionsLoop w t ti s d tm ps conds tr = None"
  using conditionsLoop_pending [of conds w t ti s d tm ps "[]" tr] by simp

lemma conditionsLoop_ready:
  "list_all (\<lambda>c. \<not> terminal c) pre \<Longrightarrow> isReady c \<Longrightarrow>
   conditionsLoop w t ti s d tm ps (pre @ c # post) tr = Some (readyExit w t ti s d tm ps tr)"
  by (simp add: conditionsLoop_pending)

lemma conditionsLoop_failure:
  "list_all (\<lambda>c. \<not> terminal c) pre \<Longrightarrow> isFailure c \<Longrightarrow>
   conditionsLoop w t ti s d tm ps (pre @ c # post) tr = Some (failureExit ti s d tr)"
  using ready_not_failure [of c] by (auto simp add: conditionsLoop_pending)

lemma watchLoop_pending:
  "list_all (\<lambda>e. pendingEvent (snd e)) evs \<Longrightarrow>
   watchLoop w t s ls tm ps ti (evs @ rest) tr = watchLoop w t s ls tm ps (snapshot ti evs) rest tr"
proof (induction evs arbitrary: ti)
  case Nil
  then show ?case by simp
next
  case (Cons e evs)
  obtain now ev where e: "e = (now, ev)" by (cases e)
  from Cons.prems have p: "pendingEvent ev" and r: "list_all (\<lambda>e. pendingEvent (snd e)) evs"
    by (simp_all add: e)
  from p obtain ti' where o: "eObject ev = TemplateInstanceObject ti'"
    and m: "eType ev = Modified" and c: "list_all (\<lambda>c. \<not> terminal c) (iConditions ti')"
    by (cases "eObject ev") (simp_all add: pendingEvent_def)
  show ?case
    using Cons.IH [OF r, of ti'] by (simp add: e o m conditionsLoop_none [OF c])
qed

lemma watchLoop_timeout:
  "list_all (\<lambda>e. pendingEvent (snd e)) evs \<Longrightarrow>
   watchLoop w t s ls tm ps ti evs tr =
     (Returned (Some (snapshot ti evs), Some s, Seconds (Sub (clockTimeout w) ls),
                Some ErrLaunchInstanceTimeout), tr)"
  using watchLoop_pending [of evs w t s ls tm ps ti "[]" tr] by simp

lemma watchLoop_unexpected:
  "list_all (\<lambda>e. pendingEvent (snd e)) evs \<Longrightarrow> eType ev \<noteq> Modified \<Longrightarrow>
   watchLoop w t s ls tm ps ti (evs @ (now, ev) # rest) tr =
     (Returned (Some (snapshot ti evs), Some s, Seconds (Sub now ls), Some ErrUnknown), tr)"
  by (simp add: watchLoop_pending)

lemma watchLoop_ready:
  "list_all (\<lambda>e. pendingEvent (snd e)) evs \<Longrightarrow> eType ev = Modified \<Longrightarrow>
   eObject ev = TemplateInstanceObject ti' \<Longrightarrow> iConditions ti' = pre @ c # post \<Longrightarrow>
   list_all (\<lambda>c. \<not> terminal c) pre \<Longrightarrow> isReady c \<Longrightarrow>
   watchLoop w t s ls tm ps ti (evs @ (now, ev) # rest) tr =
     readyExit w t ti' s (Seconds (Sub now ls)) tm ps tr"
  by (simp add: watchLoop_pending conditionsLoop_ready)

lemma watchLoop_failure:
  "list_all (\<lambda>e. pendingEvent (snd e)) evs \<Longrightarrow> eType ev = Modified \<Longrightarrow>
   eObject ev = TemplateInstanceObject ti' \<Longrightarrow> iConditions ti' = pre @ c # post \<Longrightarrow>
   list_all (\<lambda>c. \<not> terminal c) pre \<Longrightarrow> isFailure c \<Longrightarrow>
   watchLoop w t s ls tm ps ti (evs @ (now, ev) # rest) tr =
     failureExit ti' s (Seconds (Sub now ls)) tr"
  by (simp add: watchLoop_pending conditionsLoop_failure)

subsection \<open>Launch and Run\<close>

lemma snd_deleteTemplate: "snd (deleteTemplate w ns x tr) = tr @ templateCleanup ns x"
  by (simp add: deleteTemplate_def templateCleanup_def split: option.split)

lemma snd_deleteSecret: "snd (deleteSecret w ns x tr) = tr @ secretCleanup ns x"
  by (simp add: deleteSecret_def secretCleanup_def split: option.split)

lemma snd_deleteTemplateInstance: "snd (deleteTemplateInstance w ns x tr) = tr @ instanceCleanup ns x"
  by (simp add: deleteTemplateInstance_def instanceCleanup_def split: option.split)

lemma launch_get_refused:
  "TemplatesGet w tr ns name = Refused x m \<Longrightarrow>
   launchTemplateInstanceCheck w t ns name ident timeout tr =
     (Returned (None, None, 0, Some ErrCreateTemplate), tr @ [CallTemplatesGet ns name])"
  by (simp add: launchTemplateInstanceCheck_def Let_def)

lemma launch_secret_refused:
  "TemplatesGet w tr ns name = Reply template \<Longrightarrow>
   SecretsCreate w (tr @ [CallTemplatesGet ns name]) ns
      (newSecret name (getDummyTemplateParams ident)) = Refused secretResult m \<Longrightarrow>
   launchTemplateInstanceCheck w t ns name ident timeout tr =
     (Returned (None, secretResult, 0, Some ErrCreateInstance),
      tr @ [CallTemplatesGet ns name,
            CallSecretsCreate ns (newSecret name (getDummyTemplateParams ident))])"
  by (simp add: launchTemplateInstanceCheck_def Let_def)

lemma launch_instance_refused:
  "TemplatesGet w tr ns name = Reply template \<Longrightarrow>
   SecretsCreate w (tr @ [CallTemplatesGet ns name]) ns
      (newSecret name (getDummyTemplateParams ident)) = Reply secretResult \<Longrightarrow>
   InstancesCreate w
      (tr @ [CallTemplatesGet ns name,
             CallSecretsCreate ns (newSecret name (getDummyTemplateParams ident))]) ns
      (newInstance name template (newSecret name (getDummyTemplateParams ident))) = Refused x m \<Longrightarrow>
   launchTemplateInstanceCheck w t ns name ident timeout tr =
     (Returned (None, Some secretResult, 0, Some ErrCreateInstance),
      tr @ [CallTemplatesGet ns name,
            CallSecretsCreate ns (newSecret name (getDummyTemplateParams ident)),
            CallInstancesCreate ns
              (newInstance name template (newSecret name (getDummyTemplateParams ident)))])"
  by (simp add: launchTemplateInstanceCheck_def Let_def)

lemma launch_watch_refused:
  "TemplatesGet w tr ns name = Reply template \<Longrightarrow>
   SecretsCreate w (tr @ [CallTemplatesGet ns name]) ns
      (newSecret name (getDummyTemplateParams ident)) = Reply secretResult \<Longrightarrow>
   InstancesCreate w
      (tr @ [CallTemplatesGet ns name,
             CallSecretsCreate ns (newSecret name (getDummyTemplateParams ident))]) ns
      (newInstance name template (newSecret name (getDummyTemplateParams ident))) = Reply ti \<Longrightarrow>
   InstancesWatch w
      (tr @ [CallTemplatesGet ns name,
             CallSecretsCreate ns (newSecret name (getDummyTemplateParams ident)),
             CallInstancesCreate ns
               (newInstance name template (newSecret name (getDummyTemplateParams ident)))])
      ns (iName ti) = Some m \<Longrightarrow>
   launchTemplateInstanceCheck w t ns name ident timeout tr =
     (Returned (Some ti, Some secretResult, 0, Some ErrUnknown),
      tr @ [CallTemplatesGet ns name,
            CallSecretsCreate ns (newSecret name (getDummyTemplateParams ident)),
            CallInstancesCreate ns
              (newInstance name template (newSecret name (getDummyTemplateParams ident))),
            CallInstancesWatch ns (iName ti)])"
  by (simp add: launchTemplateInstanceCheck_def Let_def)

lemma Run_create_failed:
  "createTemplateCheck w (namespace t) (FormatInt (Unix (clockRun w))) tr = ((x, Some e), tr1) \<Longrightarrow>
   Run w t keep timeout tr =
     (Returned (0, Some e), if keep then tr1 else tr1 @ templateCleanup (namespace t) x)"
  by (simp add: Run_def Let_def snd_deleteTemplate)

lemma Run_launched:
  "createTemplateCheck w (namespace t) (FormatInt (Unix (clockRun w))) tr = ((Some tm, None), tr1) \<Longrightarrow>
   launchTemplateInstanceCheck w t (namespace t) (tName tm) (FormatInt (Unix (clockRun w)))
      timeout tr1 = (Returned (ti, secret, d, e), tr2) \<Longrightarrow>
   Run w t keep timeout tr =
     (Returned (d, e),
      if keep then tr2
      else tr2 @ instanceCleanup (namespace t) ti @ secretCleanup (namespace t) secret
             @ templateCleanup (namespace t) (Some tm))"
  by (simp add: Run_def Let_def snd_deleteTemplate snd_deleteSecret snd_deleteTemplateInstance)

lemma Run_panicked:
  "createTemplateCheck w (namespace t) (FormatInt (Unix (clockRun w))) tr = ((Some tm, None), tr1) \<Longrightarrow>
   launchTemplateInstanceCheck w t (namespace t) (tName tm) (FormatInt (Unix (clockRun w)))
      timeout tr1 = (Panicked p, tr2) \<Longrightarrow>
   Run w t keep timeout tr =
     (Panicked p, if keep then tr2 else tr2 @ templateCleanup (namespace t) (Some tm))"
  by (simp add: Run_def Let_def snd_deleteTemplate)

lemma Run_keep_irrelevant: "fst (Run w t False timeout tr) = fst (Run w t True timeout tr)"
  by (simp add: Run_def Let_def split: prod.split option.split outcome.split)

lemma launch_watching:
  "TemplatesGet w tr ns name = Reply template \<Longrightarrow>
   SecretsCreate w (tr @ [CallTemplatesGet ns name]) ns
      (newSecret name (getDummyTemplateParams ident)) = Reply secretResult \<Longrightarrow>
   InstancesCreate w
      (tr @ [CallTemplatesGet ns name,
             CallSecretsCreate ns (newSecret name (getDummyTemplateParams ident))]) ns
      (newInstance name template (newSecret name (getDummyTemplateParams ident))) = Reply ti \<Longrightarrow>
   InstancesWatch w
      (tr @ [CallTemplatesGet ns name,
             CallSecretsCreate ns (newSecret name (getDummyTemplateParams ident)),
             CallInstancesCreate ns
               (newInstance name template (newSecret name (getDummyTemplateParams ident)))])
      ns (iName ti) = None \<Longrightarrow>
   launchTemplateInstanceCheck w t ns name ident timeout tr =
     watchLoop w t secretResult (clockLaunch w) template (getDummyTemplateParams ident) ti
       (received w)
       (tr @ [CallTemplatesGet ns name,
              CallSecretsCreate ns (newSecret name (getDummyTemplateParams ident)),
              CallInstancesCreate ns
                (newInstance name template (newSecret name (getDummyTemplateParams ident))),
              CallInstancesWatch ns (iName ti)])"
  by (simp add: launchTemplateInstanceCheck_def Let_def)

lemma launch_unexpected:
  "TemplatesGet w tr ns name = Reply template \<Longrightarrow>
   SecretsCreate w (tr @ [CallTemplatesGet ns name]) ns
      (newSecret name (getDummyTemplateParams ident)) = Reply secretResult \<Longrightarrow>
   InstancesCreate w
      (tr @ [CallTemplatesGet ns name,
             CallSecretsCreate ns (newSecret name (getDummyTemplateParams ident))]) ns
      (newInstance name template (newSecret name (getDummyTemplateParams ident))) = Reply ti \<Longrightarrow>
   InstancesWatch w
      (tr @ [CallTemplatesGet ns name,
             CallSecretsCreate ns (newSecret name (getDummyTemplateParams ident)),
             CallInstancesCreate ns
               (newInstance name template (newSecret name (getDummyTemplateParams ident)))])
      ns (iName ti) = None \<Longrightarrow>
   received w = evs @ (now, ev) # rest \<Longrightarrow>
   list_all (\<lambda>e. pendingEvent (snd e)) evs \<Longrightarrow> eType ev \<noteq> Modified \<Longrightarrow>
   launchTemplateInstanceCheck w t ns name ident timeout tr =
     (Returned (Some (snapshot ti evs), Some secretResult, Seconds (Sub now (clockLaunch w)),
                Some ErrUnknown),
      tr @ [CallTemplatesGet ns name,
            CallSecretsCreate ns (newSecret name (getDummyTemplateParams ident)),
            CallInstancesCreate ns
              (newInstance name template (newSecret name (getDummyTemplateParams ident))),
            CallInstancesWatch ns (iName ti)])"
  by (simp add: launch_watching watchLoop_unexpected)

lemma launch_ready:
  "TemplatesGet w tr ns name = Reply template \<Longrightarrow>
   SecretsCreate w (tr @ [CallTemplatesGet ns name]) ns
      (newSecret name (getDummyTemplateParams ident)) = Reply secretResult \<Longrightarrow>
   InstancesCreate w
      (tr @ [CallTemplatesGet ns name,
             CallSecretsCreate ns (newSecret name (getDummyTemplateParams ident))]) ns
      (newInstance name template (newSecret name (getDummyTemplateParams ident))) = Reply ti \<Longrightarrow>
   InstancesWatch w
      (tr @ [CallTemplatesGet ns name,
             CallSecretsCreate ns (newSecret name (getDummyTemplateParams ident)),
             CallInstancesCreate ns
               (newInstance name template (newSecret name (getDummyTemplateParams ident)))])
      ns (iName ti) = None \<Longrightarrow>
   received w = evs @ (now, ev) # rest \<Longrightarrow>
   list_all (\<lambda>e. pendingEvent (snd e)) evs \<Longrightarrow> eType ev = Modified \<Longrightarrow>
   eObject ev = TemplateInstanceObject ti' \<Longrightarrow> iConditions ti' = pre @ c # post \<Longrightarrow>
   list_all (\<lambda>c. \<not> terminal c) pre \<Longrightarrow> isReady c \<Longrightarrow>
   launchTemplateInstanceCheck w t ns name ident timeout tr =
     readyExit w t ti' secretResult (Seconds (Sub now (clockLaunch w))) template
       (getDummyTemplateParams ident)
       (tr @ [CallTemplatesGet ns name,
            CallSecretsCreate ns (newSecret name (getDummyTemplateParams ident)),
            CallInstancesCreate ns
              (newInstance name template (newSecret name (getDummyTemplateParams ident))),
            CallInstancesWatch ns (iName ti)])"
  by (simp add: launch_watching watchLoop_ready)

subsection \<open>Create and launch issue no delete request\<close>

lemma validate_cleanup:
  "filter isCleanup (snd (validateTemplateInstance w t i tm ps tr)) = filter isCleanup tr"
  by (simp add: validateTemplateInstance_def Let_def isCleanup_def
      split: reply.split option.split list.split)

lemma snd_readyExit:
  "snd (readyExit w t ti s d tm ps tr)
     = snd (validateTemplateInstance w t ti tm ps (tr @ [CallWatcherStop]))"
  by (cases "validateTemplateInstance w t ti tm ps (tr @ [CallWatcherStop])")
     (simp add: readyExit_def split: outcome.split)

lemma readyExit_cleanup:
  "filter isCleanup (snd (readyExit w t ti s d tm ps tr)) = filter isCleanup tr"
  by (simp add: snd_readyExit validate_cleanup isCleanup_def)

lemma failureExit_cleanup:
  "filter isCleanup (snd (failureExit ti s d tr)) = filter isCleanup tr"
  by (simp add: failureExit_def isCleanup_def)

lemma conditionsLoop_cleanup:
  "conditionsLoop w t ti s d tm ps conds tr = Some r \<Longrightarrow>
   filter isCleanup (snd r) = filter isCleanup tr"
  by (induction conds) (auto simp add: readyExit_cleanup failureExit_cleanup split: if_splits)

lemma watchLoop_cleanup:
  "filter isCleanup (snd (watchLoop w t s ls tm ps ti evs tr)) = filter isCleanup tr"
proof (induction evs arbitrary: ti)
  case Nil
  then show ?case by simp
next
  case (Cons e evs)
  obtain now ev where e: "e = (now, ev)" by (cases e)
  show ?case
    by (cases "eObject ev")
       (auto simp add: e Cons.IH conditionsLoop_cleanup split: option.split)
qed

lemma launch_cleanup:
  "filter isCleanup (snd (launchTemplateInstanceCheck w t ns name ident timeout tr))
     = filter isCleanup tr"
proof -
  have "\<And>s ls tm ps ti tr'. filter isCleanup tr' = filter isCleanup tr \<Longrightarrow>
          filter isCleanup (snd (watchLoop w t s ls tm ps ti (received w) tr')) = filter isCleanup tr"
    by (simp add: watchLoop_cleanup)
  then show ?thesis
    by (simp add: launchTemplateInstanceCheck_def Let_def isCleanup_def
        split: reply.split option.split)
qed

lemma create_cleanup:
  "filter isCleanup (snd (createTemplateCheck w ns ident tr)) = filter isCleanup tr"
  by (simp add: createTemplateCheck_def Let_def isCleanup_def split: reply.split)

subsection \<open>The answers to the delete requests do not reach the result\<close>

lemma withDeletes_sel:
  "TemplatesCreate (withDeletes w f g h) = TemplatesCreate w"
  "TemplatesGet (withDeletes w f g h) = TemplatesGet w"
  "SecretsCreate (withDeletes w f g h) = SecretsCreate w"
  "InstancesCreate (withDeletes w f g h) = InstancesCreate w"
  "InstancesWatch (withDeletes w f g h) = InstancesWatch w"
  "ConfigMapsGet (withDeletes w f g h) = ConfigMapsGet w"
  "JobsGet (withDeletes w f g h) = JobsGet w"
  "jsonUnmarshal (withDeletes w f g h) = jsonUnmarshal w"
  "clockRun (withDeletes w f g h) = clockRun w"
  "clockLaunch (withDeletes w f g h) = clockLaunch w"
  "received (withDeletes w f g h) = received w"
  "clockTimeout (withDeletes w f g h) = clockTimeout w"
  by (simp_all add: withDeletes_def)

lemma validate_withDeletes:
  "validateTemplateInstance (withDeletes w f g h) t i tm ps tr
     = validateTemplateInstance w t i tm ps tr"
  unfolding validateTemplateInstance_def withDeletes_sel by (rule refl)

lemma conditionsLoop_withDeletes:
  "conditionsLoop (withDeletes w f g h) t ti s d tm ps conds tr
     = conditionsLoop w t ti s d tm ps conds tr"
  by (induction conds) (simp_all add: readyExit_def validate_withDeletes)

lemma watchLoop_withDeletes:
  "watchLoop (withDeletes w f g h) t s ls tm ps ti evs tr = watchLoop w t s ls tm ps ti evs tr"
proof (induction evs arbitrary: ti)
  case Nil
  then show ?case by (simp add: withDeletes_sel)
next
  case (Cons e evs)
  obtain now ev where e: "e = (now, ev)" by (cases e)
  show ?case
    by (cases "eObject ev")
       (simp_all add: e Cons.IH conditionsLoop_withDeletes split: option.split)
qed

lemma launch_withDeletes:
  "launchTemplateInstanceCheck (withDeletes w f g h) t ns name ident timeout tr
     = launchTemplateInstanceCheck w t ns name ident timeout tr"
  unfolding launchTemplateInstanceCheck_def withDeletes_sel watchLoop_withDeletes
  by (rule refl)

lemma create_withDeletes:
  "createTemplateCheck (withDeletes w f g h) ns ident tr = createTemplateCheck w ns ident tr"
  unfolding createTemplateCheck_def withDeletes_sel by (rule refl)

lemma fst_Run:
  "fst (Run w t keep timeout tr) =
     (case createTemplateCheck w (namespace t) (FormatInt (Unix (clockRun w))) tr of
        ((template, err), tr1) \<Rightarrow>
          (case err of
             Some e \<Rightarrow> Returned (0, Some e)
           | None \<Rightarrow>
              (case template of
                 None \<Rightarrow> Panicked NilDereference
               | Some tm \<Rightarrow>
                  (case launchTemplateInstanceCheck w t (namespace t) (tName tm)
                          (FormatInt (Unix (clockRun w))) timeout tr1 of
                     (Panicked p, tr2) \<Rightarrow> Panicked p
                   | (Returned (ti, secret, d, e'), tr2) \<Rightarrow> Returned (d, e')))))"
  by (simp add: Run_def Let_def split: prod.split option.split outcome.split)

lemma Run_withDeletes:
  "fst (Run (withDeletes w f g h) t keep timeout tr) = fst (Run w t keep timeout tr)"
proof -
  show ?thesis
    unfolding fst_Run withDeletes_sel create_withDeletes launch_withDeletes by (rule refl)
qed

subsection \<open>Unfolding the model on the example clusters\<close>

lemmas validate_eval = validateTemplateInstance_def DeepEqual_def index_def configMapName_def
  jobName_def expectedData_def getDummyTemplateParams_def Let_def

lemmas cluster_eval = goodCluster_def testSmoketest_def readyInstance_def testTemplate_def
  newTemplate_def

lemmas launch_eval = launchTemplateInstanceCheck_def newSecret_def newInstance_def
  readyExit_def failureExit_def isReady_def isFailure_def TemplateInstanceReady_def
  TemplateInstanceInstantiateFailure_def ConditionTrue_def Modified_def Seconds_def Sub_def

lemmas run_eval = Run_def createTemplateCheck_def deleteTemplate_def deleteSecret_def
  deleteTemplateInstance_def FormatInt_def Unix_def string_of_nat.simps

section \<open>The delete functions: nil references and client errors\<close>

text \<open>
  C9, as the code has it. On a nil reference each of the three delete functions does
  nothing and returns nil. On a non-nil reference it issues one delete request for the
  name of the reference and returns the error of the client unchanged: nil when the
  client reports none, the client's error otherwise.
\<close>

theorem delete_nil_or_passthrough:
  "deleteTemplate w ns None tr = (None, tr) \<and>
   deleteSecret w ns None tr = (None, tr) \<and>
   deleteTemplateInstance w ns None tr = (None, tr) \<and>
   deleteTemplate w ns (Some tm) tr =
     (map_option ApiError (TemplatesDelete w tr ns (tName tm)),
      tr @ [CallTemplatesDelete ns (tName tm)]) \<and>
   deleteSecret w ns (Some s) tr =
     (map_option ApiError (SecretsDelete w tr ns (sName s)),
      tr @ [CallSecretsDelete ns (sName s)]) \<and>
   deleteTemplateInstance w ns (Some ti) tr =
     (map_option ApiError (InstancesDelete w tr ns (iName ti)),
      tr @ [CallInstancesDelete ns (iName ti)])"
  by (simp add: deleteTemplate_def deleteSecret_def deleteTemplateInstance_def
      split: option.split)

text \<open>
  C9 as stated fails: deleting the same template twice on \<open>strictCluster\<close>, the first
  call returns nil and the second returns the not-found error of the client, after
  issuing a second delete request.
\<close>

theorem delete_twice_counterexample:
  "fst (deleteTemplate strictCluster ''dummyNamespace'' (Some testTemplate) []) = None \<and>
   deleteTemplate strictCluster ''dummyNamespace'' (Some testTemplate)
     (snd (deleteTemplate strictCluster ''dummyNamespace'' (Some testTemplate) []))
   = (Some (ApiError ''NotFound''),
      [CallTemplatesDelete ''dummyNamespace'' ''testName'',
       CallTemplatesDelete ''dummyNamespace'' ''testName''])"
  by (simp add: deleteTemplate_def strictCluster_def goodCluster_def testTemplate_def)

section \<open>Validation\<close>

text \<open>
  C5, as the code has it. Equality is \<open>reflect.DeepEqual\<close>, which tells a nil map or list
  from an empty one. Validation returns nil exactly when the labels of the template and of
  the instance are deeply equal, the get of the config map \<open>test-configmap-<ID>\<close> replies
  with data deeply equal to \<open>foo = bar, simpleParam = <SIMPLE_PARAM>\<close>, the JSON parameter
  decodes, and the get of the job \<open>test-job-<ID>\<close> replies with a job that has a first
  container whose arguments are deeply equal to the decoded list. The checks run in this
  order and the first that fails decides: labels that differ give
  \<open>ValidateTemplateInstanceFailed\<close>, a refused get of the config map
  \<open>LaunchTemplateInstanceFailed\<close>, data that differ \<open>ValidateTemplateInstanceFailed\<close>, a
  refused get of the job \<open>LaunchTemplateInstanceFailed\<close>, arguments that differ
  \<open>ValidateTemplateInstanceFailed\<close>.
\<close>

theorem validation_accepts_deep_equal_only:
  fixes w t inst template params tr
  defines "v \<equiv> fst (validateTemplateInstance w t inst template params tr)"
    and "labels \<equiv> DeepEqual (tLabels template) (iLabels inst)"
    and "cmGet \<equiv> ConfigMapsGet w tr (namespace t) (configMapName params)"
    and "decoded \<equiv> jsonUnmarshal w (index params ''JSON_PARAM'')"
    and "jobGet \<equiv> JobsGet w (tr @ [CallConfigMapsGet (namespace t) (configMapName params)])
                     (namespace t) (jobName params)"
  shows
    "(v = Returned None \<longleftrightarrow>
        labels \<and>
        (\<exists>cm. cmGet = Reply cm \<and> DeepEqual (expectedData params) (cmData cm)) \<and>
        (\<exists>args job c cs. decoded = Some args \<and> jobGet = Reply job \<and>
            Containers job = c # cs \<and> DeepEqual args (Args c))) \<and>
     (\<not> labels \<longrightarrow> v = Returned (Some ErrInstanceInvalid)) \<and>
     (labels \<and> cmGet = Refused x m \<longrightarrow> v = Returned (Some ErrLaunchInstanceFailed)) \<and>
     (labels \<and> cmGet = Reply cm \<and> \<not> DeepEqual (expectedData params) (cmData cm)
        \<longrightarrow> v = Returned (Some ErrInstanceInvalid)) \<and>
     (labels \<and> cmGet = Reply cm \<and> DeepEqual (expectedData params) (cmData cm) \<and>
      decoded = Some args \<and> jobGet = Refused y m'
        \<longrightarrow> v = Returned (Some ErrLaunchInstanceFailed)) \<and>
     (labels \<and> cmGet = Reply cm \<and> DeepEqual (expectedData params) (cmData cm) \<and>
      decoded = Some args \<and> jobGet = Reply job \<and> Containers job = c # cs \<and>
      \<not> DeepEqual args (Args c)
        \<longrightarrow> v = Returned (Some ErrInstanceInvalid))"
proof -
  have ok: "v = Returned None \<longleftrightarrow>
        labels \<and>
        (\<exists>cm. cmGet = Reply cm \<and> DeepEqual (expectedData params) (cmData cm)) \<and>
        (\<exists>args job c cs. decoded = Some args \<and> jobGet = Reply job \<and>
            Containers job = c # cs \<and> DeepEqual args (Args c))"
    unfolding v_def labels_def cmGet_def decoded_def jobGet_def by (rule validate_ok_iff)
  have a: "\<not> labels \<longrightarrow> v = Returned (Some ErrInstanceInvalid)"
    unfolding v_def labels_def by (simp add: validate_labels)
  have b: "labels \<and> cmGet = Refused x m \<longrightarrow> v = Returned (Some ErrLaunchInstanceFailed)"
    unfolding v_def labels_def cmGet_def by (simp add: validate_no_configmap)
  have c: "labels \<and> cmGet = Reply cm \<and> \<not> DeepEqual (expectedData params) (cmData cm)
        \<longrightarrow> v = Returned (Some ErrInstanceInvalid)"
    unfolding v_def labels_def cmGet_def by (simp add: validate_data)
  have d: "labels \<and> cmGet = Reply cm \<and> DeepEqual (expectedData params) (cmData cm) \<and>
      decoded = Some args \<and> jobGet = Refused y m'
        \<longrightarrow> v = Returned (Some ErrLaunchInstanceFailed)"
    unfolding v_def labels_def cmGet_def decoded_def jobGet_def
    by (simp add: validate_no_job)
  have e: "labels \<and> cmGet = Reply cm \<and> DeepEqual (expectedData params) (cmData cm) \<and>
      decoded = Some args \<and> jobGet = Reply job \<and> Containers job = c # cs \<and>
      \<not> DeepEqual args (Args c)
        \<longrightarrow> v = Returned (Some ErrInstanceInvalid)"
    unfolding v_def labels_def cmGet_def decoded_def jobGet_def
    by (simp add: validate_args)
  from ok a b c d e show ?thesis by blast
qed

text \<open>
  The theorem of C5 at work: on \<open>goodCluster\<close> the instance with nil labels is accepted
  against the template with nil labels, and the instance with an empty label map is
  rejected.
\<close>

theorem validation_accepts_deep_equal_only_witness:
  "DeepEqual (tLabels (newTemplate ''smoketest-template-5'')) (iLabels readyInstance) \<and>
   fst (validateTemplateInstance goodCluster testSmoketest readyInstance
          (newTemplate ''smoketest-template-5'') (getDummyTemplateParams ''5'') []) = Returned None \<and>
   \<not> DeepEqual (tLabels (newTemplate ''smoketest-template-5'')) (iLabels emptyLabelsInstance) \<and>
   fst (validateTemplateInstance goodCluster testSmoketest emptyLabelsInstance
          (newTemplate ''smoketest-template-5'') (getDummyTemplateParams ''5'') [])
     = Returned (Some ErrInstanceInvalid)"
proof -
  have l: "DeepEqual (tLabels (newTemplate ''smoketest-template-5'')) (iLabels readyInstance)"
    by (simp add: DeepEqual_def newTemplate_def readyInstance_def)
  have n: "\<not> DeepEqual (tLabels (newTemplate ''smoketest-template-5'')) (iLabels emptyLabelsInstance)"
    by (simp add: DeepEqual_def newTemplate_def emptyLabelsInstance_def)
  have cm: "ConfigMapsGet goodCluster [] (namespace testSmoketest)
              (configMapName (getDummyTemplateParams ''5''))
            = Reply \<lparr>cmData = Some (fmap_of_list [(''foo'', ''bar''), (''simpleParam'', ''test'')])\<rparr>"
    by (simp add: goodCluster_def)
  have d: "DeepEqual (expectedData (getDummyTemplateParams ''5''))
             (cmData \<lparr>cmData = Some (fmap_of_list [(''foo'', ''bar''), (''simpleParam'', ''test'')])\<rparr>)"
    by (simp add: validate_eval)
  have j: "jsonUnmarshal goodCluster (index (getDummyTemplateParams ''5'') ''JSON_PARAM'')
             = Some (Some [''echo'', ''Hello world''])"
    by (simp add: goodCluster_def validate_eval)
  have g: "JobsGet goodCluster
             ([] @ [CallConfigMapsGet (namespace testSmoketest)
                      (configMapName (getDummyTemplateParams ''5''))])
             (namespace testSmoketest) (jobName (getDummyTemplateParams ''5''))
           = Reply \<lparr>Containers = [\<lparr>Args = Some [''echo'', ''Hello world'']\<rparr>]\<rparr>"
    by (simp add: goodCluster_def)
  have a: "DeepEqual (Some [''echo'', ''Hello world''])
             (Args \<lparr>Args = Some [''echo'', ''Hello world'']\<rparr>)"
    by (simp add: DeepEqual_def)
  have ok: "fst (validateTemplateInstance goodCluster testSmoketest readyInstance
          (newTemplate ''smoketest-template-5'') (getDummyTemplateParams ''5'') []) = Returned None"
    using validation_accepts_deep_equal_only
            [of goodCluster testSmoketest readyInstance "newTemplate ''smoketest-template-5''"
                "getDummyTemplateParams ''5''" "[]"]
          l cm d j g a
    by simp
  have bad: "fst (validateTemplateInstance goodCluster testSmoketest emptyLabelsInstance
          (newTemplate ''smoketest-template-5'') (getDummyTemplateParams ''5'') [])
     = Returned (Some ErrInstanceInvalid)"
    using validation_accepts_deep_equal_only
            [of goodCluster testSmoketest emptyLabelsInstance
                "newTemplate ''smoketest-template-5''" "getDummyTemplateParams ''5''" "[]"] n
    by simp
  from l ok n bad show ?thesis by simp
qed

text \<open>
  C5 as stated fails. The template has nil labels and \<open>emptyLabelsInstance\<close> an empty
  label map: the two label sets have the same entries (none), the config map and the job
  are the expected ones (the instance with nil labels is accepted on the same cluster),
  and yet validation returns \<open>ValidateTemplateInstanceFailed\<close>.
\<close>

theorem empty_labels_counterexample:
  "entries (iLabels emptyLabelsInstance) = entries (tLabels (newTemplate ''smoketest-template-5'')) \<and>
   validateTemplateInstance goodCluster testSmoketest readyInstance
     (newTemplate ''smoketest-template-5'') (getDummyTemplateParams ''5'') []
     = (Returned None, [CallConfigMapsGet ''dummyNamespace'' ''test-configmap-5'',
                        CallJobsGet ''dummyNamespace'' ''test-job-5'']) \<and>
   validateTemplateInstance goodCluster testSmoketest emptyLabelsInstance
     (newTemplate ''smoketest-template-5'') (getDummyTemplateParams ''5'') []
     = (Returned (Some ErrInstanceInvalid), [])"
  by (simp add: validate_eval cluster_eval emptyLabelsInstance_def entries_def)

text \<open>
  C10. Validation reads \<open>Containers[0]\<close> of the job it fetched without a test of the
  length. When the labels, the config map and the decoding pass and the fetched job has no
  container, validation panics with an index out of range, after the two gets, and returns
  no error value. Validation panics in no other case.
\<close>

theorem validation_faults_without_container:
  fixes w t inst template params tr
  defines "v \<equiv> validateTemplateInstance w t inst template params tr"
    and "tr1 \<equiv> tr @ [CallConfigMapsGet (namespace t) (configMapName params)]"
  shows
    "(DeepEqual (tLabels template) (iLabels inst) \<and>
      ConfigMapsGet w tr (namespace t) (configMapName params) = Reply cm \<and>
      DeepEqual (expectedData params) (cmData cm) \<and>
      jsonUnmarshal w (index params ''JSON_PARAM'') = Some args \<and>
      JobsGet w tr1 (namespace t) (jobName params) = Reply job \<and>
      Containers job = []
        \<longrightarrow> v = (Panicked IndexOutOfRange, tr1 @ [CallJobsGet (namespace t) (jobName params)])) \<and>
     (fst v = Panicked p
        \<longrightarrow> p = IndexOutOfRange \<and>
            (\<exists>job. JobsGet w tr1 (namespace t) (jobName params) = Reply job \<and>
                   Containers job = []))"
  unfolding v_def tr1_def
  using validate_no_container [of template inst w tr t params cm args job]
        validate_panic_only [of w t inst template params tr p]
  by simp

text \<open>The theorem of C10 on \<open>noContainersCluster\<close>, whose job has an empty container list.\<close>

theorem validation_faults_without_container_witness:
  "DeepEqual (tLabels (newTemplate ''smoketest-template-5'')) (iLabels readyInstance) \<and>
   JobsGet noContainersCluster [CallConfigMapsGet ''dummyNamespace'' ''test-configmap-5'']
      ''dummyNamespace'' ''test-job-5'' = Reply \<lparr>Containers = []\<rparr> \<and>
   validateTemplateInstance noContainersCluster testSmoketest readyInstance
      (newTemplate ''smoketest-template-5'') (getDummyTemplateParams ''5'') []
     = (Panicked IndexOutOfRange,
        [CallConfigMapsGet ''dummyNamespace'' ''test-configmap-5'',
         CallJobsGet ''dummyNamespace'' ''test-job-5''])"
  using validation_faults_without_container
          [of "newTemplate ''smoketest-template-5''" readyInstance noContainersCluster "[]"
              testSmoketest "getDummyTemplateParams ''5''"
              "\<lparr>cmData = Some (fmap_of_list [(''foo'', ''bar''), (''simpleParam'', ''test'')])\<rparr>"
              "Some [''echo'', ''Hello world'']" "\<lparr>Containers = []\<rparr>"]
  by (simp add: noContainersCluster_def cluster_eval DeepEqual_def index_def configMapName_def
        jobName_def expectedData_def getDummyTemplateParams_def)

section \<open>Launch\<close>

text \<open>
  C6. In the launch, a refused get of the template returns \<open>CreateTemplateFailed\<close> with
  no instance and no secret; a refused create of the secret returns
  \<open>CreateTemplateInstanceFailed\<close> together with whatever secret reference the client
  handed back; a refused create of the instance returns \<open>CreateTemplateInstanceFailed\<close>
  together with the secret that was created. In each case the duration is zero and no
  further call is issued.
\<close>

theorem launch_failures_classified:
  fixes w t ns name ident timeout tr
  defines "secret \<equiv> newSecret name (getDummyTemplateParams ident)"
    and "tr1 \<equiv> tr @ [CallTemplatesGet ns name]"
  defines "tr2 \<equiv> tr1 @ [CallSecretsCreate ns secret]"
  shows
    "(TemplatesGet w tr ns name = Refused x m
        \<longrightarrow> launchTemplateInstanceCheck w t ns name ident timeout tr
              = (Returned (None, None, 0, Some ErrCreateTemplate), tr1)) \<and>
     (TemplatesGet w tr ns name = Reply template \<and>
      SecretsCreate w tr1 ns secret = Refused secretResult m
        \<longrightarrow> launchTemplateInstanceCheck w t ns name ident timeout tr
              = (Returned (None, secretResult, 0, Some ErrCreateInstance), tr2)) \<and>
     (TemplatesGet w tr ns name = Reply template \<and>
      SecretsCreate w tr1 ns secret = Reply created \<and>
      InstancesCreate w tr2 ns (newInstance name template secret) = Refused y m
        \<longrightarrow> launchTemplateInstanceCheck w t ns name ident timeout tr
              = (Returned (None, Some created, 0, Some ErrCreateInstance),
                 tr2 @ [CallInstancesCreate ns (newInstance name template secret)]))"
  unfolding secret_def tr1_def tr2_def
  using launch_get_refused [of w tr ns name x m t ident timeout]
        launch_secret_refused [of w tr ns name template ident secretResult m t timeout]
        launch_instance_refused [of w tr ns name template ident created y m t timeout]
  by simp

text \<open>
  The theorem of C6 on three clusters: one that refuses the get of the template, one that
  refuses the create of the secret and hands back an empty secret object, and
  \<open>noInstanceCluster\<close>, which refuses the create of the instance.
\<close>

theorem launch_failures_classified_witness:
  "launchTemplateInstanceCheck
      (goodCluster\<lparr>TemplatesGet := (\<lambda>tr ns name. Refused None ''NotFound'')\<rparr>)
      testSmoketest ''dummyNamespace'' ''smoketest-template-5'' ''5'' 60 []
     = (Returned (None, None, 0, Some ErrCreateTemplate),
        [CallTemplatesGet ''dummyNamespace'' ''smoketest-template-5'']) \<and>
   fst (launchTemplateInstanceCheck
      (goodCluster\<lparr>SecretsCreate :=
         (\<lambda>tr ns s. Refused (Some \<lparr>sName = [], sData = None\<rparr>) ''AlreadyExists'')\<rparr>)
      testSmoketest ''dummyNamespace'' ''smoketest-template-5'' ''5'' 60 [])
     = Returned (None, Some \<lparr>sName = [], sData = None\<rparr>, 0, Some ErrCreateInstance) \<and>
   fst (launchTemplateInstanceCheck noInstanceCluster
      testSmoketest ''dummyNamespace'' ''smoketest-template-5'' ''5'' 60 [])
     = Returned (None, Some (newSecret ''smoketest-template-5'' (getDummyTemplateParams ''5'')),
                 0, Some ErrCreateInstance)"
proof -
  have a: "launchTemplateInstanceCheck
      (goodCluster\<lparr>TemplatesGet := (\<lambda>tr ns name. Refused None ''NotFound'')\<rparr>)
      testSmoketest ''dummyNamespace'' ''smoketest-template-5'' ''5'' 60 []
     = (Returned (None, None, 0, Some ErrCreateTemplate),
        [CallTemplatesGet ''dummyNamespace'' ''smoketest-template-5''])"
    using launch_failures_classified
      [of "goodCluster\<lparr>TemplatesGet := (\<lambda>tr ns name. Refused None ''NotFound'')\<rparr>"
          "[]" "''dummyNamespace''" "''smoketest-template-5''" None "''NotFound''"
          testSmoketest "''5''" 60]
    by simp
  have b: "fst (launchTemplateInstanceCheck
      (goodCluster\<lparr>SecretsCreate :=
         (\<lambda>tr ns s. Refused (Some \<lparr>sName = [], sData = None\<rparr>) ''AlreadyExists'')\<rparr>)
      testSmoketest ''dummyNamespace'' ''smoketest-template-5'' ''5'' 60 [])
     = Returned (None, Some \<lparr>sName = [], sData = None\<rparr>, 0, Some ErrCreateInstance)"
    using launch_failures_classified
      [of "goodCluster\<lparr>SecretsCreate :=
             (\<lambda>tr ns s. Refused (Some \<lparr>sName = [], sData = None\<rparr>) ''AlreadyExists'')\<rparr>"
          "[]" "''dummyNamespace''" "''smoketest-template-5''" None "''AlreadyExists''"
          testSmoketest "''5''" 60 "newTemplate ''smoketest-template-5''"
          "Some \<lparr>sName = [], sData = None\<rparr>"]
    by (simp add: goodCluster_def)
  have c: "fst (launchTemplateInstanceCheck noInstanceCluster
      testSmoketest ''dummyNamespace'' ''smoketest-template-5'' ''5'' 60 [])
     = Returned (None, Some (newSecret ''smoketest-template-5'' (getDummyTemplateParams ''5'')),
                 0, Some ErrCreateInstance)"
    using launch_failures_classified
      [of noInstanceCluster
          "[]" "''dummyNamespace''" "''smoketest-template-5''" None "''Forbidden''"
          testSmoketest "''5''" 60 "newTemplate ''smoketest-template-5''"
          None "newSecret ''smoketest-template-5'' (getDummyTemplateParams ''5'')" None]
    by (simp add: noInstanceCluster_def goodCluster_def)
  from a b c show ?thesis by simp
qed

text \<open>
  C7. Three faults are classified \<open>Unknown\<close>, each stated of the launch as a whole, with
  the template fetched and the secret and the instance created. When the watch cannot be
  opened, the launch returns \<open>Unknown\<close> at once with duration zero: the watch request is
  the last call of the trace, issued once, and the events play no part. When the watch is
  open and an event whose type is not Modified follows any number of pending events, the
  launch returns \<open>Unknown\<close> with the time from the start of the launch to that event and
  issues no further call. When a Modified event brings Ready=True first and validation
  passes the labels and the config map, a JSON parameter that does not decode makes the
  launch return \<open>Unknown\<close>, and the job is not fetched. The last two are also stated of the
  loop and of the validation alone, for every state in which they are entered.
\<close>

theorem engine_faults_are_unknown:
  fixes w t ns name ident timeout tr template created ti
  defines "params \<equiv> getDummyTemplateParams ident"
  defines "secret \<equiv> newSecret name params"
    and "tr1 \<equiv> tr @ [CallTemplatesGet ns name]"
  defines "tr2 \<equiv> tr1 @ [CallSecretsCreate ns secret]"
  defines "tr3 \<equiv> tr2 @ [CallInstancesCreate ns (newInstance name template secret)]"
  defines "tr4 \<equiv> tr3 @ [CallInstancesWatch ns (iName ti)]"
  defines "submitted \<equiv>
             TemplatesGet w tr ns name = Reply template \<and>
             SecretsCreate w tr1 ns secret = Reply created \<and>
             InstancesCreate w tr2 ns (newInstance name template secret) = Reply ti"
  shows
    "(submitted \<and> InstancesWatch w tr3 ns (iName ti) = Some m
        \<longrightarrow> launchTemplateInstanceCheck w t ns name ident timeout tr
              = (Returned (Some ti, Some created, 0, Some ErrUnknown), tr4)) \<and>
     (submitted \<and> InstancesWatch w tr3 ns (iName ti) = None \<and>
      received w = evs @ (now, ev) # rest \<and>
      list_all (\<lambda>e. pendingEvent (snd e)) evs \<and> eType ev \<noteq> Modified
        \<longrightarrow> launchTemplateInstanceCheck w t ns name ident timeout tr
              = (Returned (Some (snapshot ti evs), Some created,
                           Seconds (Sub now (clockLaunch w)), Some ErrUnknown), tr4)) \<and>
     (submitted \<and> InstancesWatch w tr3 ns (iName ti) = None \<and>
      received w = evs @ (now, ev) # rest \<and>
      list_all (\<lambda>e. pendingEvent (snd e)) evs \<and> eType ev = Modified \<and>
      eObject ev = TemplateInstanceObject ti' \<and> iConditions ti' = pre @ c # post \<and>
      list_all (\<lambda>c. \<not> terminal c) pre \<and> isReady c \<and>
      DeepEqual (tLabels template) (iLabels ti') \<and>
      ConfigMapsGet w (tr4 @ [CallWatcherStop]) (namespace t) (configMapName params) = Reply cm \<and>
      DeepEqual (expectedData params) (cmData cm) \<and>
      jsonUnmarshal w (index params ''JSON_PARAM'') = None
        \<longrightarrow> launchTemplateInstanceCheck w t ns name ident timeout tr
              = (Returned (Some ti', Some created, Seconds (Sub now (clockLaunch w)),
                           Some ErrUnknown),
                 tr4 @ [CallWatcherStop, CallConfigMapsGet (namespace t) (configMapName params)])) \<and>
     (list_all (\<lambda>e. pendingEvent (snd e)) evs0 \<and> eType ev0 \<noteq> Modified
        \<longrightarrow> watchLoop w t s ls tm ps ti0 (evs0 @ (now0, ev0) # rest0) tr'
              = (Returned (Some (snapshot ti0 evs0), Some s, Seconds (Sub now0 ls), Some ErrUnknown),
                 tr')) \<and>
     (DeepEqual (tLabels tm) (iLabels inst) \<and>
      ConfigMapsGet w tr' (namespace t) (configMapName ps) = Reply cm0 \<and>
      DeepEqual (expectedData ps) (cmData cm0) \<and>
      jsonUnmarshal w (index ps ''JSON_PARAM'') = None
        \<longrightarrow> validateTemplateInstance w t inst tm ps tr'
              = (Returned (Some ErrUnknown),
                 tr' @ [CallConfigMapsGet (namespace t) (configMapName ps)])) \<and>
     Error ErrUnknown = ''Unknown''"
proof -
  have a: "submitted \<and> InstancesWatch w tr3 ns (iName ti) = Some m
        \<longrightarrow> launchTemplateInstanceCheck w t ns name ident timeout tr
              = (Returned (Some ti, Some created, 0, Some ErrUnknown), tr4)"
    unfolding submitted_def tr4_def tr3_def tr2_def tr1_def secret_def params_def
    using launch_watch_refused [of w tr ns name template ident created ti m t timeout]
    by simp
  have b: "submitted \<and> InstancesWatch w tr3 ns (iName ti) = None \<and>
      received w = evs @ (now, ev) # rest \<and>
      list_all (\<lambda>e. pendingEvent (snd e)) evs \<and> eType ev \<noteq> Modified
        \<longrightarrow> launchTemplateInstanceCheck w t ns name ident timeout tr
              = (Returned (Some (snapshot ti evs), Some created,
                           Seconds (Sub now (clockLaunch w)), Some ErrUnknown), tr4)"
    unfolding submitted_def tr4_def tr3_def tr2_def tr1_def secret_def params_def
    using launch_unexpected [of w tr ns name template ident created ti evs now ev rest t timeout]
    by simp
  have c: "submitted \<and> InstancesWatch w tr3 ns (iName ti) = None \<and>
      received w = evs @ (now, ev) # rest \<and>
      list_all (\<lambda>e. pendingEvent (snd e)) evs \<and> eType ev = Modified \<and>
      eObject ev = TemplateInstanceObject ti' \<and> iConditions ti' = pre @ c # post \<and>
      list_all (\<lambda>c. \<not> terminal c) pre \<and> isReady c \<and>
      DeepEqual (tLabels template) (iLabels ti') \<and>
      ConfigMapsGet w (tr4 @ [CallWatcherStop]) (namespace t) (configMapName params) = Reply cm \<and>
      DeepEqual (expectedData params) (cmData cm) \<and>
      jsonUnmarshal w (index params ''JSON_PARAM'') = None
        \<longrightarrow> launchTemplateInstanceCheck w t ns name ident timeout tr
              = (Returned (Some ti', Some created, Seconds (Sub now (clockLaunch w)),
                           Some ErrUnknown),
                 tr4 @ [CallWatcherStop, CallConfigMapsGet (namespace t) (configMapName params)])"
  proof
    assume h: "submitted \<and> InstancesWatch w tr3 ns (iName ti) = None \<and>
      received w = evs @ (now, ev) # rest \<and>
      list_all (\<lambda>e. pendingEvent (snd e)) evs \<and> eType ev = Modified \<and>
      eObject ev = TemplateInstanceObject ti' \<and> iConditions ti' = pre @ c # post \<and>
      list_all (\<lambda>c. \<not> terminal c) pre \<and> isReady c \<and>
      DeepEqual (tLabels template) (iLabels ti') \<and>
      ConfigMapsGet w (tr4 @ [CallWatcherStop]) (namespace t) (configMapName params) = Reply cm \<and>
      DeepEqual (expectedData params) (cmData cm) \<and>
      jsonUnmarshal w (index params ''JSON_PARAM'') = None"
    then have l: "launchTemplateInstanceCheck w t ns name ident timeout tr
        = readyExit w t ti' created (Seconds (Sub now (clockLaunch w))) template params tr4"
      unfolding submitted_def tr4_def tr3_def tr2_def tr1_def secret_def params_def
      using launch_ready [of w tr ns name template ident created ti evs now ev rest ti' pre c
                             post t timeout]
      by simp
    from h have v: "validateTemplateInstance w t ti' template params (tr4 @ [CallWatcherStop])
        = (Returned (Some ErrUnknown),
           (tr4 @ [CallWatcherStop]) @ [CallConfigMapsGet (namespace t) (configMapName params)])"
      using validate_decode [of template ti' w "tr4 @ [CallWatcherStop]" t params cm] by simp
    from l v show "launchTemplateInstanceCheck w t ns name ident timeout tr
              = (Returned (Some ti', Some created, Seconds (Sub now (clockLaunch w)),
                           Some ErrUnknown),
                 tr4 @ [CallWatcherStop, CallConfigMapsGet (namespace t) (configMapName params)])"
      by (simp add: readyExit_def)
  qed
  have d: "list_all (\<lambda>e. pendingEvent (snd e)) evs0 \<and> eType ev0 \<noteq> Modified
        \<longrightarrow> watchLoop w t s ls tm ps ti0 (evs0 @ (now0, ev0) # rest0) tr'
              = (Returned (Some (snapshot ti0 evs0), Some s, Seconds (Sub now0 ls), Some ErrUnknown),
                 tr')"
    using watchLoop_unexpected [of evs0 ev0 w t s ls tm ps ti0 now0 rest0 tr'] by simp
  have e: "DeepEqual (tLabels tm) (iLabels inst) \<and>
      ConfigMapsGet w tr' (namespace t) (configMapName ps) = Reply cm0 \<and>
      DeepEqual (expectedData ps) (cmData cm0) \<and>
      jsonUnmarshal w (index ps ''JSON_PARAM'') = None
        \<longrightarrow> validateTemplateInstance w t inst tm ps tr'
              = (Returned (Some ErrUnknown),
                 tr' @ [CallConfigMapsGet (namespace t) (configMapName ps)])"
    using validate_decode [of tm inst w tr' t ps cm0] by simp
  from a b c d e show ?thesis by simp
qed

text \<open>
  The theorem of C7 on \<open>unwatchableCluster\<close>, \<open>deletedCluster\<close> and \<open>undecodableCluster\<close>:
  each launch, and each whole run, returns \<open>Unknown\<close>, with durations 0, 3 and 2 seconds.
\<close>

theorem engine_faults_are_unknown_witness:
  "launchTemplateInstanceCheck unwatchableCluster
      testSmoketest ''dummyNamespace'' ''smoketest-template-5'' ''5'' 60 []
     = (Returned (Some (newInstance ''smoketest-template-5'' (newTemplate ''smoketest-template-5'')
                          (newSecret ''smoketest-template-5'' (getDummyTemplateParams ''5''))),
                  Some (newSecret ''smoketest-template-5'' (getDummyTemplateParams ''5'')),
                  0, Some ErrUnknown),
        [CallTemplatesGet ''dummyNamespace'' ''smoketest-template-5'',
         CallSecretsCreate ''dummyNamespace''
           (newSecret ''smoketest-template-5'' (getDummyTemplateParams ''5'')),
         CallInstancesCreate ''dummyNamespace''
           (newInstance ''smoketest-template-5'' (newTemplate ''smoketest-template-5'')
              (newSecret ''smoketest-template-5'' (getDummyTemplateParams ''5''))),
         CallInstancesWatch ''dummyNamespace'' ''smoketest-template-5-instance'']) \<and>
   fst (launchTemplateInstanceCheck deletedCluster
      testSmoketest ''dummyNamespace'' ''smoketest-template-5'' ''5'' 60 [])
     = Returned (Some progressingInstance,
                 Some (newSecret ''smoketest-template-5'' (getDummyTemplateParams ''5'')),
                 3, Some ErrUnknown) \<and>
   fst (launchTemplateInstanceCheck undecodableCluster
      testSmoketest ''dummyNamespace'' ''smoketest-template-5'' ''5'' 60 [])
     = Returned (Some readyInstance,
                 Some (newSecret ''smoketest-template-5'' (getDummyTemplateParams ''5'')),
                 2, Some ErrUnknown) \<and>
   fst (Run unwatchableCluster testSmoketest False 60 []) = Returned (0, Some ErrUnknown) \<and>
   fst (Run deletedCluster testSmoketest False 60 []) = Returned (3, Some ErrUnknown) \<and>
   fst (Run undecodableCluster testSmoketest False 60 []) = Returned (2, Some ErrUnknown) \<and>
   watchLoop goodCluster testSmoketest
      (newSecret ''smoketest-template-5'' (getDummyTemplateParams ''5'')) 6000000000
      (newTemplate ''smoketest-template-5'') (getDummyTemplateParams ''5'') readyInstance
      [(7000000000, modifiedEvent progressingInstance), (9000000000, deletedEvent)] []
     = (Returned (Some progressingInstance,
                  Some (newSecret ''smoketest-template-5'' (getDummyTemplateParams ''5'')),
                  3, Some ErrUnknown), []) \<and>
   validateTemplateInstance undecodableCluster testSmoketest
      readyInstance (newTemplate ''smoketest-template-5'') (getDummyTemplateParams ''5'') []
     = (Returned (Some ErrUnknown), [CallConfigMapsGet ''dummyNamespace'' ''test-configmap-5''])"
proof -
  let ?secret = "newSecret ''smoketest-template-5'' (getDummyTemplateParams ''5'')"
  let ?tm = "newTemplate ''smoketest-template-5''"
  let ?ti = "newInstance ''smoketest-template-5'' ?tm ?secret"
  let ?cm = "\<lparr>cmData = Some (fmap_of_list [(''foo'', ''bar''), (''simpleParam'', ''test'')])\<rparr>"
  have p: "list_all (\<lambda>e. pendingEvent (snd e)) [(7000000000, modifiedEvent progressingInstance)]"
    by (simp add: pendingEvent_def modifiedEvent_def progressingInstance_def readyInstance_def
          terminal_def isReady_def isFailure_def Modified_def ConditionTrue_def)
  have d: "eType deletedEvent \<noteq> Modified"
    by (simp add: deletedEvent_def Modified_def)
  have r: "isReady \<lparr>cType = ''Ready'', cStatus = ''True''\<rparr>"
    by (simp add: isReady_def TemplateInstanceReady_def ConditionTrue_def)
  have a: "launchTemplateInstanceCheck unwatchableCluster
      testSmoketest ''dummyNamespace'' ''smoketest-template-5'' ''5'' 60 []
     = (Returned (Some ?ti, Some ?secret, 0, Some ErrUnknown),
        [CallTemplatesGet ''dummyNamespace'' ''smoketest-template-5'',
         CallSecretsCreate ''dummyNamespace'' ?secret,
         CallInstancesCreate ''dummyNamespace'' ?ti,
         CallInstancesWatch ''dummyNamespace'' ''smoketest-template-5-instance''])"
    using engine_faults_are_unknown
      [where w = unwatchableCluster and tr = "[]" and ns = "''dummyNamespace''"
         and name = "''smoketest-template-5''" and template = ?tm and ident = "''5''"
         and created = ?secret and ti = ?ti and m = "''Unauthorized''"
         and t = testSmoketest and timeout = 60]
    by (simp add: unwatchableCluster_def goodCluster_def newInstance_def)
  have b: "fst (launchTemplateInstanceCheck deletedCluster
      testSmoketest ''dummyNamespace'' ''smoketest-template-5'' ''5'' 60 [])
     = Returned (Some progressingInstance, Some ?secret, 3, Some ErrUnknown)"
    using engine_faults_are_unknown
      [where w = deletedCluster and tr = "[]" and ns = "''dummyNamespace''"
         and name = "''smoketest-template-5''" and template = ?tm and ident = "''5''"
         and created = ?secret and ti = ?ti
         and evs = "[(7000000000, modifiedEvent progressingInstance)]"
         and now = 9000000000 and ev = deletedEvent and rest = "[]"
         and t = testSmoketest and timeout = 60] p d
    by (simp add: deletedCluster_def goodCluster_def modifiedEvent_def Seconds_def Sub_def)
  have c: "fst (launchTemplateInstanceCheck undecodableCluster
      testSmoketest ''dummyNamespace'' ''smoketest-template-5'' ''5'' 60 [])
     = Returned (Some readyInstance, Some ?secret, 2, Some ErrUnknown)"
    using engine_faults_are_unknown
      [where w = undecodableCluster and tr = "[]" and ns = "''dummyNamespace''"
         and name = "''smoketest-template-5''" and template = ?tm and ident = "''5''"
         and created = ?secret and ti = ?ti
         and evs = "[]" and now = 8000000000 and ev = "modifiedEvent readyInstance"
         and rest = "[]" and ti' = readyInstance and pre = "[]"
         and c = "\<lparr>cType = ''Ready'', cStatus = ''True''\<rparr>" and post = "[]"
         and cm = ?cm and t = testSmoketest and timeout = 60] r
    by (simp add: undecodableCluster_def cluster_eval modifiedEvent_def Modified_def
          Seconds_def Sub_def DeepEqual_def index_def configMapName_def expectedData_def
          getDummyTemplateParams_def)
  have run: "fst (Run unwatchableCluster testSmoketest False 60 []) = Returned (0, Some ErrUnknown)"
    "fst (Run deletedCluster testSmoketest False 60 []) = Returned (3, Some ErrUnknown)"
    "fst (Run undecodableCluster testSmoketest False 60 []) = Returned (2, Some ErrUnknown)"
    by (simp_all add: run_eval launch_eval validate_eval cluster_eval unwatchableCluster_def
          deletedCluster_def undecodableCluster_def modifiedEvent_def deletedEvent_def
          progressingInstance_def)
  have e: "watchLoop goodCluster testSmoketest ?secret 6000000000 ?tm
      (getDummyTemplateParams ''5'') readyInstance
      [(7000000000, modifiedEvent progressingInstance), (9000000000, deletedEvent)] []
     = (Returned (Some progressingInstance, Some ?secret, 3, Some ErrUnknown), [])"
    using engine_faults_are_unknown
      [where ?evs0.0 = "[(7000000000, modifiedEvent progressingInstance)]" and ?ev0.0 = deletedEvent
         and w = goodCluster and t = testSmoketest and s = ?secret and ls = 6000000000
         and tm = ?tm and ps = "getDummyTemplateParams ''5''" and ?ti0.0 = readyInstance
         and ?now0.0 = 9000000000 and ?rest0.0 = "[]" and tr' = "[]"] p d
    by (simp add: modifiedEvent_def Seconds_def Sub_def)
  have f: "validateTemplateInstance undecodableCluster testSmoketest
      readyInstance ?tm (getDummyTemplateParams ''5'') []
     = (Returned (Some ErrUnknown), [CallConfigMapsGet ''dummyNamespace'' ''test-configmap-5''])"
    using engine_faults_are_unknown
      [where w = undecodableCluster and t = testSmoketest
         and inst = readyInstance and tm = ?tm and ps = "getDummyTemplateParams ''5''"
         and tr' = "[]" and ?cm0.0 = ?cm]
    by (simp add: undecodableCluster_def cluster_eval DeepEqual_def index_def configMapName_def
          expectedData_def getDummyTemplateParams_def)
  from a b c run e f show ?thesis by simp
qed

section \<open>The wait loop\<close>

text \<open>
  C1, as the code has it. The loop over the conditions of a Modified event stops at the
  first condition that is Ready=True or InstantiateFailure=True. When that condition is
  Ready=True the watcher is stopped, validation runs and its result is returned; when it
  is InstantiateFailure=True the watcher is stopped and \<open>LaunchTemplateInstanceFailed\<close> is
  returned without validation. The conditions after it are not read, so with both
  conditions in the list the one listed first decides.
\<close>

theorem first_terminal_condition_decides:
  "eType ev = Modified \<and> eObject ev = TemplateInstanceObject ti' \<and>
   iConditions ti' = pre @ c # post \<and> list_all (\<lambda>c. \<not> terminal c) pre
     \<longrightarrow> (isReady c
            \<longrightarrow> watchLoop w t s ls tm ps ti ((now, ev) # rest) tr
                  = (case validateTemplateInstance w t ti' tm ps (tr @ [CallWatcherStop]) of
                       (Panicked p, tr') \<Rightarrow> (Panicked p, tr')
                     | (Returned e, tr') \<Rightarrow>
                         (Returned (Some ti', Some s, Seconds (Sub now ls), e), tr'))) \<and>
         (isFailure c
            \<longrightarrow> watchLoop w t s ls tm ps ti ((now, ev) # rest) tr
                  = (Returned (Some ti', Some s, Seconds (Sub now ls), Some ErrLaunchInstanceFailed),
                     tr @ [CallWatcherStop]))"
  using watchLoop_ready [of "[]" ev ti' pre c post w t s ls tm ps ti now rest tr]
        watchLoop_failure [of "[]" ev ti' pre c post w t s ls tm ps ti now rest tr]
  by (simp add: failureExit_def readyExit_def)

text \<open>
  The theorem of C1 on the two instances that carry both conditions: Ready listed first
  is validated and succeeds, InstantiateFailure listed first fails the launch.
\<close>

theorem first_terminal_condition_decides_witness:
  "watchLoop goodCluster testSmoketest
      (newSecret ''smoketest-template-5'' (getDummyTemplateParams ''5'')) 6000000000
      (newTemplate ''smoketest-template-5'') (getDummyTemplateParams ''5'') readyInstance
      [(8000000000, modifiedEvent readyFirstInstance)] []
     = (Returned (Some readyFirstInstance,
                  Some (newSecret ''smoketest-template-5'' (getDummyTemplateParams ''5'')),
                  2, None),
        [CallWatcherStop, CallConfigMapsGet ''dummyNamespace'' ''test-configmap-5'',
         CallJobsGet ''dummyNamespace'' ''test-job-5'']) \<and>
   watchLoop goodCluster testSmoketest
      (newSecret ''smoketest-template-5'' (getDummyTemplateParams ''5'')) 6000000000
      (newTemplate ''smoketest-template-5'') (getDummyTemplateParams ''5'') readyInstance
      [(8000000000, modifiedEvent failureFirstInstance)] []
     = (Returned (Some failureFirstInstance,
                  Some (newSecret ''smoketest-template-5'' (getDummyTemplateParams ''5'')),
                  2, Some ErrLaunchInstanceFailed),
        [CallWatcherStop])"
proof -
  let ?secret = "newSecret ''smoketest-template-5'' (getDummyTemplateParams ''5'')"
  let ?tm = "newTemplate ''smoketest-template-5''"
  have r: "isReady \<lparr>cType = ''Ready'', cStatus = ''True''\<rparr>"
    by (simp add: isReady_def TemplateInstanceReady_def ConditionTrue_def)
  have f: "isFailure \<lparr>cType = ''InstantiateFailure'', cStatus = ''True''\<rparr>"
    by (simp add: isFailure_def TemplateInstanceInstantiateFailure_def ConditionTrue_def)
  have v: "validateTemplateInstance goodCluster testSmoketest readyFirstInstance ?tm
             (getDummyTemplateParams ''5'') ([] @ [CallWatcherStop])
           = (Returned None,
              [CallWatcherStop, CallConfigMapsGet ''dummyNamespace'' ''test-configmap-5'',
               CallJobsGet ''dummyNamespace'' ''test-job-5''])"
    by (simp add: validate_eval cluster_eval readyFirstInstance_def)
  have a: "watchLoop goodCluster testSmoketest ?secret 6000000000 ?tm
      (getDummyTemplateParams ''5'') readyInstance
      [(8000000000, modifiedEvent readyFirstInstance)] []
     = (Returned (Some readyFirstInstance, Some ?secret, 2, None),
        [CallWatcherStop, CallConfigMapsGet ''dummyNamespace'' ''test-configmap-5'',
         CallJobsGet ''dummyNamespace'' ''test-job-5''])"
    using first_terminal_condition_decides
      [where ev = "modifiedEvent readyFirstInstance" and ti' = readyFirstInstance
         and pre = "[]" and c = "\<lparr>cType = ''Ready'', cStatus = ''True''\<rparr>"
         and post = "[\<lparr>cType = ''InstantiateFailure'', cStatus = ''True''\<rparr>]"
         and w = goodCluster and t = testSmoketest and s = ?secret and ls = 6000000000
         and tm = ?tm and ps = "getDummyTemplateParams ''5''" and ti = readyInstance
         and now = 8000000000 and rest = "[]" and tr = "[]"] r v
    by (simp add: modifiedEvent_def Modified_def readyFirstInstance_def Seconds_def Sub_def)
  have b: "watchLoop goodCluster testSmoketest ?secret 6000000000 ?tm
      (getDummyTemplateParams ''5'') readyInstance
      [(8000000000, modifiedEvent failureFirstInstance)] []
     = (Returned (Some failureFirstInstance, Some ?secret, 2, Some ErrLaunchInstanceFailed),
        [CallWatcherStop])"
    using first_terminal_condition_decides
      [where ev = "modifiedEvent failureFirstInstance" and ti' = failureFirstInstance
         and pre = "[]" and c = "\<lparr>cType = ''InstantiateFailure'', cStatus = ''True''\<rparr>"
         and post = "[\<lparr>cType = ''Ready'', cStatus = ''True''\<rparr>]"
         and w = goodCluster and t = testSmoketest and s = ?secret and ls = 6000000000
         and tm = ?tm and ps = "getDummyTemplateParams ''5''" and ti = readyInstance
         and now = 8000000000 and rest = "[]" and tr = "[]"] f
    by (simp add: modifiedEvent_def Modified_def failureFirstInstance_def Seconds_def Sub_def)
  from a b show ?thesis by simp
qed

text \<open>
  C1 as stated fails. The event carries both Ready=True and InstantiateFailure=True, with
  the failure listed first: the run returns \<open>LaunchTemplateInstanceFailed\<close> and the config
  map is never fetched, so validation did not run. The same cluster with the two
  conditions in the other order returns no error.
\<close>

theorem failure_listed_first_counterexample:
  "list_ex isReady (iConditions failureFirstInstance) \<and>
   list_ex isFailure (iConditions failureFirstInstance) \<and>
   fst (Run (goodCluster\<lparr>received := [(8000000000, modifiedEvent failureFirstInstance)]\<rparr>)
          testSmoketest False 60 [])
     = Returned (2, Some ErrLaunchInstanceFailed) \<and>
   CallConfigMapsGet ''dummyNamespace'' ''test-configmap-5''
     \<notin> set (snd (Run (goodCluster\<lparr>received := [(8000000000, modifiedEvent failureFirstInstance)]\<rparr>)
                     testSmoketest False 60 [])) \<and>
   fst (Run (goodCluster\<lparr>received := [(8000000000, modifiedEvent readyFirstInstance)]\<rparr>)
          testSmoketest False 60 [])
     = Returned (2, None)"
  by (simp add: run_eval launch_eval validate_eval cluster_eval modifiedEvent_def
        failureFirstInstance_def readyFirstInstance_def)

text \<open>
  C4. When every event taken before the timer is pending (a Modified event with no
  terminal condition), the loop returns \<open>LaunchTemplateInstanceTimeout\<close> with the time
  from the start of the launch to the timer's branch, and issues no call. The same for the
  launch as a whole, where the start is the reading taken before the instance is created.
\<close>

theorem timeout_without_terminal_event:
  fixes w t ns name ident timeout tr template
  defines "secret \<equiv> newSecret name (getDummyTemplateParams ident)"
    and "tr1 \<equiv> tr @ [CallTemplatesGet ns name]"
  defines "tr2 \<equiv> tr1 @ [CallSecretsCreate ns secret]"
  defines "tr3 \<equiv> tr2 @ [CallInstancesCreate ns (newInstance name template secret)]"
  shows
    "(list_all (\<lambda>e. pendingEvent (snd e)) evs
        \<longrightarrow> watchLoop w t s ls tm ps ti0 evs tr'
              = (Returned (Some (snapshot ti0 evs), Some s, Seconds (Sub (clockTimeout w) ls),
                           Some ErrLaunchInstanceTimeout), tr')) \<and>
     (TemplatesGet w tr ns name = Reply template \<and>
      SecretsCreate w tr1 ns secret = Reply created \<and>
      InstancesCreate w tr2 ns (newInstance name template secret) = Reply ti \<and>
      InstancesWatch w tr3 ns (iName ti) = None \<and>
      list_all (\<lambda>e. pendingEvent (snd e)) (received w)
        \<longrightarrow> launchTemplateInstanceCheck w t ns name ident timeout tr
              = (Returned (Some (snapshot ti (received w)), Some created,
                           Seconds (Sub (clockTimeout w) (clockLaunch w)),
                           Some ErrLaunchInstanceTimeout),
                 tr3 @ [CallInstancesWatch ns (iName ti)])) \<and>
     Error ErrLaunchInstanceTimeout = ''LaunchTemplateInstanceTimeout''"
  unfolding secret_def tr1_def tr2_def tr3_def
  using watchLoop_timeout [of evs w t s ls tm ps ti0 tr']
        launch_watching [of w tr ns name template ident created ti t timeout]
        watchLoop_timeout [of "received w" w t created "clockLaunch w" template
           "getDummyTemplateParams ident" ti
           "tr @ [CallTemplatesGet ns name,
              CallSecretsCreate ns (newSecret name (getDummyTemplateParams ident)),
              CallInstancesCreate ns
                (newInstance name template (newSecret name (getDummyTemplateParams ident))),
              CallInstancesWatch ns (iName ti)]"]
  by simp

text \<open>
  The theorem of C4 on one pending event followed by the timer, and on \<open>silentCluster\<close>,
  which delivers no event: the timer's branch is taken 60 seconds after the launch started.
\<close>

theorem timeout_without_terminal_event_witness:
  "list_all (\<lambda>e. pendingEvent (snd e)) [(7000000000, modifiedEvent progressingInstance)] \<and>
   watchLoop goodCluster testSmoketest
      (newSecret ''smoketest-template-5'' (getDummyTemplateParams ''5'')) 6000000000
      (newTemplate ''smoketest-template-5'') (getDummyTemplateParams ''5'') readyInstance
      [(7000000000, modifiedEvent progressingInstance)] []
     = (Returned (Some progressingInstance,
                  Some (newSecret ''smoketest-template-5'' (getDummyTemplateParams ''5'')),
                  60, Some ErrLaunchInstanceTimeout), []) \<and>
   fst (launchTemplateInstanceCheck silentCluster testSmoketest ''dummyNamespace''
          ''smoketest-template-5'' ''5'' 60 [])
     = Returned (Some (newInstance ''smoketest-template-5'' (newTemplate ''smoketest-template-5'')
                         (newSecret ''smoketest-template-5'' (getDummyTemplateParams ''5''))),
                 Some (newSecret ''smoketest-template-5'' (getDummyTemplateParams ''5'')),
                 60, Some ErrLaunchInstanceTimeout)"
proof -
  let ?secret = "newSecret ''smoketest-template-5'' (getDummyTemplateParams ''5'')"
  let ?tm = "newTemplate ''smoketest-template-5''"
  have p: "list_all (\<lambda>e. pendingEvent (snd e)) [(7000000000, modifiedEvent progressingInstance)]"
    by (simp add: pendingEvent_def modifiedEvent_def progressingInstance_def readyInstance_def
          terminal_def isReady_def isFailure_def Modified_def ConditionTrue_def)
  have a: "watchLoop goodCluster testSmoketest ?secret 6000000000 ?tm
      (getDummyTemplateParams ''5'') readyInstance
      [(7000000000, modifiedEvent progressingInstance)] []
     = (Returned (Some progressingInstance, Some ?secret, 60, Some ErrLaunchInstanceTimeout), [])"
    using timeout_without_terminal_event
      [where evs = "[(7000000000, modifiedEvent progressingInstance)]"
         and w = goodCluster and t = testSmoketest and s = ?secret and ls = 6000000000
         and tm = ?tm and ps = "getDummyTemplateParams ''5''" and ?ti0.0 = readyInstance
         and tr' = "[]"] p
    by (simp add: modifiedEvent_def Seconds_def Sub_def goodCluster_def)
  have b: "fst (launchTemplateInstanceCheck silentCluster testSmoketest ''dummyNamespace''
          ''smoketest-template-5'' ''5'' 60 [])
     = Returned (Some (newInstance ''smoketest-template-5'' ?tm ?secret), Some ?secret,
                 60, Some ErrLaunchInstanceTimeout)"
    using timeout_without_terminal_event
      [where w = silentCluster and tr = "[]" and ns = "''dummyNamespace''"
         and name = "''smoketest-template-5''" and ident = "''5''" and template = ?tm
         and created = ?secret and ti = "newInstance ''smoketest-template-5'' ?tm ?secret"
         and t = testSmoketest and timeout = 60]
    by (simp add: silentCluster_def goodCluster_def Seconds_def Sub_def)
  from p a b show ?thesis by simp
qed

text \<open>
  C3 does not hold of the code. On \<open>silentCluster\<close> no event arrives and the timer fires:
  the launch returns \<open>LaunchTemplateInstanceTimeout\<close> and its trace ends with the watch
  request; the whole run never stops the watcher. On \<open>goodCluster\<close>, where the Ready
  condition arrives, the run does stop it.
\<close>

theorem watcher_left_open_on_timeout:
  "launchTemplateInstanceCheck silentCluster testSmoketest ''dummyNamespace''
      ''smoketest-template-5'' ''5'' 60 []
     = (Returned (Some (newInstance ''smoketest-template-5'' (newTemplate ''smoketest-template-5'')
                          (newSecret ''smoketest-template-5'' (getDummyTemplateParams ''5''))),
                  Some (newSecret ''smoketest-template-5'' (getDummyTemplateParams ''5'')),
                  60, Some ErrLaunchInstanceTimeout),
        [CallTemplatesGet ''dummyNamespace'' ''smoketest-template-5'',
         CallSecretsCreate ''dummyNamespace''
           (newSecret ''smoketest-template-5'' (getDummyTemplateParams ''5'')),
         CallInstancesCreate ''dummyNamespace''
           (newInstance ''smoketest-template-5'' (newTemplate ''smoketest-template-5'')
              (newSecret ''smoketest-template-5'' (getDummyTemplateParams ''5''))),
         CallInstancesWatch ''dummyNamespace'' ''smoketest-template-5-instance'']) \<and>
   CallWatcherStop \<notin> set (snd (Run silentCluster testSmoketest False 60 [])) \<and>
   CallWatcherStop \<in> set (snd (Run goodCluster testSmoketest False 60 []))"
  by (simp add: run_eval launch_eval validate_eval cluster_eval silentCluster_def)

text \<open>
  C8. Let the template be fetched, the secret and the instance created and the watch
  opened, and let a Modified event whose first terminal condition is Ready=True follow any
  number of pending events. Then the launch returns the time from its start (the reading
  taken before the instance is created) to the reading taken when that event is processed,
  together with whatever validation returns, error or none: validation adds nothing to
  the duration. A run whose template creation succeeded returns exactly this duration and
  this error. In general \<open>Run\<close> returns the duration and the error of the launch unchanged,
  and zero with the error of the template creation when that fails. The first conjunct says
  the same of the loop alone, for every start reading.
\<close>

theorem launch_duration_fixed_at_ready:
  fixes w t ns name ident timeout tr template created ti evs now ev rest ti' pre c post e trv
  defines "params \<equiv> getDummyTemplateParams ident"
  defines "secret \<equiv> newSecret name params"
    and "tr1 \<equiv> tr @ [CallTemplatesGet ns name]"
  defines "tr2 \<equiv> tr1 @ [CallSecretsCreate ns secret]"
  defines "tr3 \<equiv> tr2 @ [CallInstancesCreate ns (newInstance name template secret)]"
  defines "tr4 \<equiv> tr3 @ [CallInstancesWatch ns (iName ti)]"
  defines "readyAt \<equiv>
             TemplatesGet w tr ns name = Reply template \<and>
             SecretsCreate w tr1 ns secret = Reply created \<and>
             InstancesCreate w tr2 ns (newInstance name template secret) = Reply ti \<and>
             InstancesWatch w tr3 ns (iName ti) = None \<and>
             received w = evs @ (now, ev) # rest \<and>
             list_all (\<lambda>e. pendingEvent (snd e)) evs \<and> eType ev = Modified \<and>
             eObject ev = TemplateInstanceObject ti' \<and> iConditions ti' = pre @ c # post \<and>
             list_all (\<lambda>c. \<not> terminal c) pre \<and> isReady c \<and>
             validateTemplateInstance w t ti' template params (tr4 @ [CallWatcherStop])
               = (Returned e, trv)"
    and "runId \<equiv> FormatInt (Unix (clockRun w))"
  shows
    "(list_all (\<lambda>e. pendingEvent (snd e)) evs0 \<and> eType ev0 = Modified \<and>
      eObject ev0 = TemplateInstanceObject ti0' \<and> iConditions ti0' = pre0 @ c0 # post0 \<and>
      list_all (\<lambda>c. \<not> terminal c) pre0 \<and> isReady c0 \<and>
      validateTemplateInstance w t ti0' tm ps (tr' @ [CallWatcherStop]) = (Returned e0, trv0)
        \<longrightarrow> watchLoop w t s ls tm ps ti0 (evs0 @ (now0, ev0) # rest0) tr'
              = (Returned (Some ti0', Some s, Seconds (Sub now0 ls), e0), trv0)) \<and>
     (readyAt
        \<longrightarrow> launchTemplateInstanceCheck w t ns name ident timeout tr
              = (Returned (Some ti', Some created, Seconds (Sub now (clockLaunch w)), e), trv)) \<and>
     (createTemplateCheck w (namespace t) runId tr0 = ((Some tmpl, None), tr) \<and>
      ns = namespace t \<and> name = tName tmpl \<and> ident = runId \<and> readyAt
        \<longrightarrow> fst (Run w t keep timeout tr0)
              = Returned (Seconds (Sub now (clockLaunch w)), e)) \<and>
     (createTemplateCheck w (namespace t) runId tr0 = ((Some tmpl, None), trc) \<and>
      launchTemplateInstanceCheck w t (namespace t) (tName tmpl) runId timeout trc
        = (Returned (ti1, secret1, d, e1), tr2')
        \<longrightarrow> fst (Run w t keep timeout tr0) = Returned (d, e1)) \<and>
     (createTemplateCheck w (namespace t) runId tr0 = ((x, Some e2), trc)
        \<longrightarrow> fst (Run w t keep timeout tr0) = Returned (0, Some e2))"
proof -
  have a: "list_all (\<lambda>e. pendingEvent (snd e)) evs0 \<and> eType ev0 = Modified \<and>
      eObject ev0 = TemplateInstanceObject ti0' \<and> iConditions ti0' = pre0 @ c0 # post0 \<and>
      list_all (\<lambda>c. \<not> terminal c) pre0 \<and> isReady c0 \<and>
      validateTemplateInstance w t ti0' tm ps (tr' @ [CallWatcherStop]) = (Returned e0, trv0)
        \<longrightarrow> watchLoop w t s ls tm ps ti0 (evs0 @ (now0, ev0) # rest0) tr'
              = (Returned (Some ti0', Some s, Seconds (Sub now0 ls), e0), trv0)"
    using watchLoop_ready [of evs0 ev0 ti0' pre0 c0 post0 w t s ls tm ps ti0 now0 rest0 tr']
    by (simp add: readyExit_def)
  have l: "readyAt
        \<longrightarrow> launchTemplateInstanceCheck w t ns name ident timeout tr
              = (Returned (Some ti', Some created, Seconds (Sub now (clockLaunch w)), e), trv)"
  proof
    assume h: readyAt
    then have v: "validateTemplateInstance w t ti' template params (tr4 @ [CallWatcherStop])
               = (Returned e, trv)"
      by (simp add: readyAt_def)
    from h have "launchTemplateInstanceCheck w t ns name ident timeout tr
        = readyExit w t ti' created (Seconds (Sub now (clockLaunch w))) template params tr4"
      unfolding readyAt_def tr4_def tr3_def tr2_def tr1_def secret_def params_def
      using launch_ready [of w tr ns name template ident created ti evs now ev rest ti' pre c
                             post t timeout]
      by simp
    with v show "launchTemplateInstanceCheck w t ns name ident timeout tr
              = (Returned (Some ti', Some created, Seconds (Sub now (clockLaunch w)), e), trv)"
      by (simp add: readyExit_def)
  qed
  have b: "createTemplateCheck w (namespace t) runId tr0 = ((Some tmpl, None), trc) \<and>
      launchTemplateInstanceCheck w t (namespace t) (tName tmpl) runId timeout trc
        = (Returned (ti1, secret1, d, e1), tr2')
        \<longrightarrow> fst (Run w t keep timeout tr0) = Returned (d, e1)" for trc ti1 secret1 d e1 tr2'
    unfolding runId_def
    using Run_launched [of w t tr0 tmpl trc timeout ti1 secret1 d e1 tr2' keep] by simp
  have r: "createTemplateCheck w (namespace t) runId tr0 = ((Some tmpl, None), tr) \<and>
      ns = namespace t \<and> name = tName tmpl \<and> ident = runId \<and> readyAt
        \<longrightarrow> fst (Run w t keep timeout tr0)
              = Returned (Seconds (Sub now (clockLaunch w)), e)"
    using l b [of tr "Some ti'" "Some created" "Seconds (Sub now (clockLaunch w))" e trv]
    by auto
  have c: "createTemplateCheck w (namespace t) runId tr0 = ((x, Some e2), trc)
        \<longrightarrow> fst (Run w t keep timeout tr0) = Returned (0, Some e2)"
    unfolding runId_def
    using Run_create_failed [of w t tr0 x e2 trc keep timeout] by simp
  from a l r b [of trc ti1 secret1 d e1 tr2'] c show ?thesis by simp
qed

text \<open>
  The theorem of C8 on three runs. The run starts at second 5, the launch at second 6 and
  the Ready event is processed at second 8: the launch and the run return 2 seconds when
  validation succeeds (\<open>goodCluster\<close>), the run returns 2 seconds with the validation error
  when it fails (\<open>mismatchCluster\<close>), and 0 when the template cannot be created.
\<close>

theorem launch_duration_fixed_at_ready_witness:
  "launchTemplateInstanceCheck goodCluster testSmoketest ''dummyNamespace''
      ''smoketest-template-5'' ''5'' 60 []
     = (Returned (Some readyInstance,
                  Some (newSecret ''smoketest-template-5'' (getDummyTemplateParams ''5'')),
                  2, None),
        [CallTemplatesGet ''dummyNamespace'' ''smoketest-template-5'',
         CallSecretsCreate ''dummyNamespace''
           (newSecret ''smoketest-template-5'' (getDummyTemplateParams ''5'')),
         CallInstancesCreate ''dummyNamespace''
           (newInstance ''smoketest-template-5'' (newTemplate ''smoketest-template-5'')
              (newSecret ''smoketest-template-5'' (getDummyTemplateParams ''5''))),
         CallInstancesWatch ''dummyNamespace'' ''smoketest-template-5-instance'',
         CallWatcherStop,
         CallConfigMapsGet ''dummyNamespace'' ''test-configmap-5'',
         CallJobsGet ''dummyNamespace'' ''test-job-5'']) \<and>
   fst (Run goodCluster testSmoketest False 60 []) = Returned (2, None) \<and>
   fst (Run mismatchCluster testSmoketest False 60 []) = Returned (2, Some ErrInstanceInvalid) \<and>
   fst (Run (goodCluster\<lparr>TemplatesCreate := (\<lambda>tr ns tm. Refused None ''Forbidden'')\<rparr>)
          testSmoketest False 60 []) = Returned (0, Some ErrCreateTemplate)"
proof -
  let ?secret = "newSecret ''smoketest-template-5'' (getDummyTemplateParams ''5'')"
  let ?tm = "newTemplate ''smoketest-template-5''"
  let ?ti = "newInstance ''smoketest-template-5'' ?tm ?secret"
  let ?tr1 = "[CallTemplatesCreate ''dummyNamespace'' ?tm]"
  let ?trw = "[CallTemplatesGet ''dummyNamespace'' ''smoketest-template-5'',
         CallSecretsCreate ''dummyNamespace'' ?secret,
         CallInstancesCreate ''dummyNamespace'' ?ti,
         CallInstancesWatch ''dummyNamespace'' ''smoketest-template-5-instance'',
         CallWatcherStop,
         CallConfigMapsGet ''dummyNamespace'' ''test-configmap-5'',
         CallJobsGet ''dummyNamespace'' ''test-job-5'']"
  have i: "FormatInt (Unix (clockRun goodCluster)) = ''5''"
          "FormatInt (Unix (clockRun mismatchCluster)) = ''5''"
    by (simp_all add: FormatInt_def Unix_def string_of_nat.simps goodCluster_def
          mismatchCluster_def)
  have r: "isReady \<lparr>cType = ''Ready'', cStatus = ''True''\<rparr>"
    by (simp add: isReady_def TemplateInstanceReady_def ConditionTrue_def)
  have c1: "createTemplateCheck goodCluster (namespace testSmoketest) ''5'' []
              = ((Some ?tm, None), ?tr1)"
    by (simp add: createTemplateCheck_def goodCluster_def testSmoketest_def Let_def)
  have c2: "createTemplateCheck mismatchCluster (namespace testSmoketest) ''5'' []
              = ((Some ?tm, None), ?tr1)"
    by (simp add: createTemplateCheck_def goodCluster_def mismatchCluster_def testSmoketest_def
          Let_def)
  have v0: "validateTemplateInstance goodCluster testSmoketest readyInstance ?tm
              (getDummyTemplateParams ''5'')
              [CallTemplatesGet ''dummyNamespace'' ''smoketest-template-5'',
               CallSecretsCreate ''dummyNamespace'' ?secret,
               CallInstancesCreate ''dummyNamespace'' ?ti,
               CallInstancesWatch ''dummyNamespace'' ''smoketest-template-5-instance'',
               CallWatcherStop]
            = (Returned None, ?trw)"
    by (simp add: validate_eval cluster_eval)
  have v1: "validateTemplateInstance goodCluster testSmoketest readyInstance ?tm
              (getDummyTemplateParams ''5'')
              (?tr1 @ [CallTemplatesGet ''dummyNamespace'' ''smoketest-template-5'',
               CallSecretsCreate ''dummyNamespace'' ?secret,
               CallInstancesCreate ''dummyNamespace'' ?ti,
               CallInstancesWatch ''dummyNamespace'' ''smoketest-template-5-instance'',
               CallWatcherStop])
            = (Returned None, ?tr1 @ ?trw)"
    by (simp add: validate_eval cluster_eval)
  have v2: "validateTemplateInstance mismatchCluster testSmoketest readyInstance ?tm
              (getDummyTemplateParams ''5'')
              (?tr1 @ [CallTemplatesGet ''dummyNamespace'' ''smoketest-template-5'',
               CallSecretsCreate ''dummyNamespace'' ?secret,
               CallInstancesCreate ''dummyNamespace'' ?ti,
               CallInstancesWatch ''dummyNamespace'' ''smoketest-template-5-instance'',
               CallWatcherStop])
            = (Returned (Some ErrInstanceInvalid), ?tr1 @ ?trw)"
    by (simp add: validate_eval cluster_eval mismatchCluster_def)
  have l: "launchTemplateInstanceCheck goodCluster testSmoketest ''dummyNamespace''
      ''smoketest-template-5'' ''5'' 60 []
     = (Returned (Some readyInstance, Some ?secret, 2, None), ?trw)"
    using launch_duration_fixed_at_ready
      [where w = goodCluster and tr = "[]" and ns = "''dummyNamespace''"
         and name = "''smoketest-template-5''" and template = ?tm and ident = "''5''"
         and created = ?secret and ti = ?ti
         and evs = "[]" and now = 8000000000 and ev = "modifiedEvent readyInstance"
         and rest = "[]" and ti' = readyInstance and pre = "[]"
         and c = "\<lparr>cType = ''Ready'', cStatus = ''True''\<rparr>" and post = "[]"
         and e = None and trv = ?trw and t = testSmoketest and timeout = 60] r v0
    by (simp add: goodCluster_def readyInstance_def newInstance_def modifiedEvent_def
          Modified_def Seconds_def Sub_def)
  have a: "fst (Run goodCluster testSmoketest False 60 []) = Returned (2, None)"
    using launch_duration_fixed_at_ready
      [where w = goodCluster and ?tr0.0 = "[]" and tmpl = ?tm and tr = ?tr1
         and ns = "''dummyNamespace''"
         and name = "''smoketest-template-5''" and template = ?tm and ident = "''5''"
         and created = ?secret and ti = ?ti
         and evs = "[]" and now = 8000000000 and ev = "modifiedEvent readyInstance"
         and rest = "[]" and ti' = readyInstance and pre = "[]"
         and c = "\<lparr>cType = ''Ready'', cStatus = ''True''\<rparr>" and post = "[]"
         and e = None and trv = "?tr1 @ ?trw" and t = testSmoketest and timeout = 60
         and keep = False] r c1 v1 i
    by (simp add: goodCluster_def readyInstance_def newInstance_def newTemplate_def
          modifiedEvent_def Modified_def Seconds_def Sub_def testSmoketest_def)
  have b: "fst (Run mismatchCluster testSmoketest False 60 [])
             = Returned (2, Some ErrInstanceInvalid)"
    using launch_duration_fixed_at_ready
      [where w = mismatchCluster and ?tr0.0 = "[]" and tmpl = ?tm and tr = ?tr1
         and ns = "''dummyNamespace''"
         and name = "''smoketest-template-5''" and template = ?tm and ident = "''5''"
         and created = ?secret and ti = ?ti
         and evs = "[]" and now = 8000000000 and ev = "modifiedEvent readyInstance"
         and rest = "[]" and ti' = readyInstance and pre = "[]"
         and c = "\<lparr>cType = ''Ready'', cStatus = ''True''\<rparr>" and post = "[]"
         and e = "Some ErrInstanceInvalid" and trv = "?tr1 @ ?trw" and t = testSmoketest
         and timeout = 60 and keep = False] r c2 v2 i
    by (simp add: mismatchCluster_def goodCluster_def readyInstance_def newInstance_def
          newTemplate_def modifiedEvent_def Modified_def Seconds_def Sub_def testSmoketest_def)
  have c: "fst (Run (goodCluster\<lparr>TemplatesCreate := (\<lambda>tr ns tm. Refused None ''Forbidden'')\<rparr>)
          testSmoketest False 60 []) = Returned (0, Some ErrCreateTemplate)"
    using launch_duration_fixed_at_ready
      [where w = "goodCluster\<lparr>TemplatesCreate := (\<lambda>tr ns tm. Refused None ''Forbidden'')\<rparr>"
         and t = testSmoketest and ?tr0.0 = "[]" and x = None and ?e2.0 = ErrCreateTemplate
         and trc = ?tr1 and keep = False and timeout = 60]
    by (simp add: createTemplateCheck_def goodCluster_def testSmoketest_def FormatInt_def
          Unix_def string_of_nat.simps Let_def)
  from l a b c show ?thesis by simp
qed

section \<open>Run and its cleanup\<close>

text \<open>
  The paths on which \<open>Run\<close> returns, with \<open>keepObjects\<close> false. When the creation of the
  template fails, \<open>Run\<close> returns zero and the error and then invokes \<open>deleteTemplate\<close> on the
  reference it got; when the launch returns, with whatever error, \<open>Run\<close> returns the
  duration and error of the launch and then invokes \<open>deleteTemplateInstance\<close>,
  \<open>deleteSecret\<close> and \<open>deleteTemplate\<close>, in this order, once each, on the references the
  launch returned (a nil reference issues no request). Creation and launch issue no delete
  request of their own, and the value \<open>Run\<close> returns is the same whatever the client
  answers to the delete requests.
\<close>

theorem cleanup_on_return:
  fixes w t timeout tr
  defines "ns \<equiv> namespace t"
    and "ident \<equiv> FormatInt (Unix (clockRun w))"
  shows
    "(createTemplateCheck w ns ident tr = ((x, Some e), tr1)
        \<longrightarrow> Run w t False timeout tr = (Returned (0, Some e), tr1 @ templateCleanup ns x) \<and>
            filter isCleanup tr1 = filter isCleanup tr) \<and>
     (createTemplateCheck w ns ident tr = ((Some tm, None), tr1) \<and>
      launchTemplateInstanceCheck w t ns (tName tm) ident timeout tr1
        = (Returned (ti, secret, d, e'), tr2)
        \<longrightarrow> Run w t False timeout tr
              = (Returned (d, e'),
                 tr2 @ instanceCleanup ns ti @ secretCleanup ns secret
                   @ [CallTemplatesDelete ns (tName tm)]) \<and>
            filter isCleanup tr2 = filter isCleanup tr) \<and>
     fst (Run (withDeletes w f g h) t False timeout tr) = fst (Run w t False timeout tr)"
proof -
  have a: "createTemplateCheck w ns ident tr = ((x, Some e), tr1)
        \<longrightarrow> Run w t False timeout tr = (Returned (0, Some e), tr1 @ templateCleanup ns x) \<and>
            filter isCleanup tr1 = filter isCleanup tr"
  proof
    assume c: "createTemplateCheck w ns ident tr = ((x, Some e), tr1)"
    have "filter isCleanup (snd (createTemplateCheck w ns ident tr)) = filter isCleanup tr"
      by (rule create_cleanup)
    with c have f: "filter isCleanup tr1 = filter isCleanup tr" by simp
    from c have "Run w t False timeout tr = (Returned (0, Some e), tr1 @ templateCleanup ns x)"
      unfolding ns_def ident_def by (simp add: Run_create_failed)
    with f show "Run w t False timeout tr = (Returned (0, Some e), tr1 @ templateCleanup ns x) \<and>
            filter isCleanup tr1 = filter isCleanup tr" by simp
  qed
  have b: "createTemplateCheck w ns ident tr = ((Some tm, None), tr1) \<and>
      launchTemplateInstanceCheck w t ns (tName tm) ident timeout tr1
        = (Returned (ti, secret, d, e'), tr2)
        \<longrightarrow> Run w t False timeout tr
              = (Returned (d, e'),
                 tr2 @ instanceCleanup ns ti @ secretCleanup ns secret
                   @ [CallTemplatesDelete ns (tName tm)]) \<and>
            filter isCleanup tr2 = filter isCleanup tr"
  proof
    assume h: "createTemplateCheck w ns ident tr = ((Some tm, None), tr1) \<and>
      launchTemplateInstanceCheck w t ns (tName tm) ident timeout tr1
        = (Returned (ti, secret, d, e'), tr2)"
    then have c: "createTemplateCheck w ns ident tr = ((Some tm, None), tr1)"
      and l: "launchTemplateInstanceCheck w t ns (tName tm) ident timeout tr1
        = (Returned (ti, secret, d, e'), tr2)" by simp_all
    have "filter isCleanup (snd (createTemplateCheck w ns ident tr)) = filter isCleanup tr"
      by (rule create_cleanup)
    with c have f1: "filter isCleanup tr1 = filter isCleanup tr" by simp
    have "filter isCleanup (snd (launchTemplateInstanceCheck w t ns (tName tm) ident timeout tr1))
            = filter isCleanup tr1"
      by (rule launch_cleanup)
    with l f1 have f2: "filter isCleanup tr2 = filter isCleanup tr" by simp
    from c l have "Run w t False timeout tr
              = (Returned (d, e'),
                 tr2 @ instanceCleanup ns ti @ secretCleanup ns secret
                   @ [CallTemplatesDelete ns (tName tm)])"
      unfolding ns_def ident_def by (simp add: Run_launched templateCleanup_def)
    with f2 show "Run w t False timeout tr
              = (Returned (d, e'),
                 tr2 @ instanceCleanup ns ti @ secretCleanup ns secret
                   @ [CallTemplatesDelete ns (tName tm)]) \<and>
            filter isCleanup tr2 = filter isCleanup tr" by simp
  qed
  from a b Run_withDeletes [of w f g h t False timeout tr] show ?thesis by simp
qed

text \<open>
  Four returning runs: on \<open>goodCluster\<close> the three deletes follow in the order instance,
  secret, template; on \<open>noInstanceCluster\<close>, where the secret exists and the instance does
  not, the secret and the template are deleted; when the template cannot be created and
  the client hands back nil, nothing is deleted; and when every delete fails, the run
  still returns success.
\<close>

theorem cleanup_on_return_witness:
  "fst (Run goodCluster testSmoketest False 60 []) = Returned (2, None) \<and>
   filter isCleanup (snd (Run goodCluster testSmoketest False 60 []))
     = [CallInstancesDelete ''dummyNamespace'' ''smoketest-template-5-instance'',
        CallSecretsDelete ''dummyNamespace'' ''smoketest-template-5-secret'',
        CallTemplatesDelete ''dummyNamespace'' ''smoketest-template-5''] \<and>
   fst (Run noInstanceCluster testSmoketest False 60 []) = Returned (0, Some ErrCreateInstance) \<and>
   filter isCleanup (snd (Run noInstanceCluster testSmoketest False 60 []))
     = [CallSecretsDelete ''dummyNamespace'' ''smoketest-template-5-secret'',
        CallTemplatesDelete ''dummyNamespace'' ''smoketest-template-5''] \<and>
   Run (goodCluster\<lparr>TemplatesCreate := (\<lambda>tr ns tm. Refused None ''Forbidden'')\<rparr>)
       testSmoketest False 60 []
     = (Returned (0, Some ErrCreateTemplate),
        [CallTemplatesCreate ''dummyNamespace'' (newTemplate ''smoketest-template-5'')]) \<and>
   fst (Run (withDeletes goodCluster failingDeletes failingDeletes failingDeletes)
          testSmoketest False 60 []) = Returned (2, None)"
proof -
  let ?secret = "newSecret ''smoketest-template-5'' (getDummyTemplateParams ''5'')"
  let ?tm = "newTemplate ''smoketest-template-5''"
  let ?tr1 = "[CallTemplatesCreate ''dummyNamespace'' ?tm]"
  let ?noTemplate = "goodCluster\<lparr>TemplatesCreate := (\<lambda>tr ns tm. Refused None ''Forbidden'')\<rparr>"
  have i: "FormatInt (Unix (clockRun goodCluster)) = ''5''"
          "FormatInt (Unix (clockRun noInstanceCluster)) = ''5''"
          "FormatInt (Unix (clockRun ?noTemplate)) = ''5''"
    by (simp_all add: FormatInt_def Unix_def string_of_nat.simps goodCluster_def
          noInstanceCluster_def)
  have c1: "createTemplateCheck goodCluster (namespace testSmoketest) ''5'' []
              = ((Some ?tm, None), ?tr1)"
    by (simp add: createTemplateCheck_def goodCluster_def testSmoketest_def Let_def)
  have c2: "createTemplateCheck noInstanceCluster (namespace testSmoketest) ''5'' []
              = ((Some ?tm, None), ?tr1)"
    by (simp add: createTemplateCheck_def goodCluster_def noInstanceCluster_def
          testSmoketest_def Let_def)
  have c3: "createTemplateCheck ?noTemplate (namespace testSmoketest) ''5'' []
              = ((None, Some ErrCreateTemplate), ?tr1)"
    by (simp add: createTemplateCheck_def goodCluster_def testSmoketest_def Let_def)
  have l1: "fst (launchTemplateInstanceCheck goodCluster testSmoketest (namespace testSmoketest)
              (tName ?tm) ''5'' 60 ?tr1)
            = Returned (Some readyInstance, Some ?secret, 2, None)"
    by (simp add: launch_eval validate_eval cluster_eval)
  have l2: "fst (launchTemplateInstanceCheck noInstanceCluster testSmoketest
              (namespace testSmoketest) (tName ?tm) ''5'' 60 ?tr1)
            = Returned (None, Some ?secret, 0, Some ErrCreateInstance)"
    by (simp add: launch_eval validate_eval cluster_eval noInstanceCluster_def)
  have a: "fst (Run goodCluster testSmoketest False 60 []) = Returned (2, None) \<and>
     filter isCleanup (snd (Run goodCluster testSmoketest False 60 []))
     = [CallInstancesDelete ''dummyNamespace'' ''smoketest-template-5-instance'',
        CallSecretsDelete ''dummyNamespace'' ''smoketest-template-5-secret'',
        CallTemplatesDelete ''dummyNamespace'' ''smoketest-template-5'']"
    using cleanup_on_return
      [where w = goodCluster and t = testSmoketest and tr = "[]" and tm = ?tm
         and ?tr1.0 = ?tr1 and timeout = 60 and ti = "Some readyInstance"
         and secret = "Some ?secret" and d = 2 and e' = None
         and ?tr2.0 = "snd (launchTemplateInstanceCheck goodCluster testSmoketest
              (namespace testSmoketest) (tName ?tm) ''5'' 60 ?tr1)"]
      c1 l1
    by (simp add: i prod_eq_iff instanceCleanup_def secretCleanup_def isCleanup_def
          readyInstance_def newSecret_def newTemplate_def testSmoketest_def)
  have b: "fst (Run noInstanceCluster testSmoketest False 60 [])
             = Returned (0, Some ErrCreateInstance) \<and>
     filter isCleanup (snd (Run noInstanceCluster testSmoketest False 60 []))
     = [CallSecretsDelete ''dummyNamespace'' ''smoketest-template-5-secret'',
        CallTemplatesDelete ''dummyNamespace'' ''smoketest-template-5'']"
    using cleanup_on_return
      [where w = noInstanceCluster and t = testSmoketest and tr = "[]" and tm = ?tm
         and ?tr1.0 = ?tr1 and timeout = 60 and ti = None
         and secret = "Some ?secret" and d = 0 and e' = "Some ErrCreateInstance"
         and ?tr2.0 = "snd (launchTemplateInstanceCheck noInstanceCluster testSmoketest
              (namespace testSmoketest) (tName ?tm) ''5'' 60 ?tr1)"]
      c2 l2
    by (simp add: i prod_eq_iff instanceCleanup_def secretCleanup_def isCleanup_def
          newSecret_def newTemplate_def testSmoketest_def)
  have c: "Run ?noTemplate testSmoketest False 60 []
     = (Returned (0, Some ErrCreateTemplate), ?tr1)"
    using cleanup_on_return
      [where w = ?noTemplate and t = testSmoketest and tr = "[]" and x = None
         and e = ErrCreateTemplate and ?tr1.0 = ?tr1 and timeout = 60]
      c3
    by (simp add: i templateCleanup_def)
  have d: "fst (Run (withDeletes goodCluster failingDeletes failingDeletes failingDeletes)
          testSmoketest False 60 []) = Returned (2, None)"
    using cleanup_on_return
      [where w = goodCluster and t = testSmoketest and tr = "[]" and timeout = 60
         and f = failingDeletes and g = failingDeletes and h = failingDeletes] a
    by simp
  from a b c d show ?thesis by simp
qed


end
